theory Spec2Isabelle
  imports
    Complex_Main
    "HOL-Library.Char_ord"
    "HOL-Library.List_Lexorder"
    "HOL-Library.Product_Lexorder"
    "HOL-Library.Sublist"
    "HOL-Library.Multiset"
begin

section \<open>Data model\<close>

text \<open>
  The tables of \<^verbatim>\<open>data_wrangling.py\<close> are pandas data frames loaded from two CSV files.
  A frame is modelled as the list of its rows, a row as a record with one field per column
  the code touches. A text cell or an identifier that pandas holds as null is \<open>None\<close>.
  A number is a \<open>float64\<close>: a real (for an integer column, the integer), an infinity or
  NaN, and NaN is also what pandas stores for a missing number. The row identifier
  \<open>FID\<close> is an integer. The column \<^verbatim>\<open>Level_\<close> is the field \<open>Level\<close>, \<^verbatim>\<open>County/ Sub-County\<close>
  is \<open>County_Sub_County\<close> and \<^verbatim>\<open>Total*\<close> is \<open>Total_star\<close>; the other population
  columns are named by their distinguishing words.
\<close>

datatype float64 = Fin real | PInf | NInf | NaN

record school_row =
  Province :: "string option"
  Level :: "string option"
  Division :: "string option"
  FID :: "int option"
  TotalEnrol :: float64
  TotalBoys :: float64
  TotalGirls :: float64
  No_Classrm :: float64
  TeachersTo :: float64
  Latitude :: float64
  Longitude :: float64

text \<open>
  A cell of a numeric column of the population file: the file writes numbers with
  thousands separators, so pandas may hold the column as text (dtype \<open>object\<close>).
  A missing value is NaN, in a text column as well.
\<close>

datatype cell = is_Text: Text string | Num float64

record pop_row =
  County_Sub_County :: "string option"
  Total_star :: cell
  At_School :: cell
  Left_After_Completion :: cell
  Left_Before_Completion :: cell
  Never_Been :: cell

section \<open>Division names\<close>

text \<open>\<^verbatim>\<open>get_nairobi_subcounties\<close>: the fixed list of names.\<close>

definition get_nairobi_subcounties :: "string list" where
  "get_nairobi_subcounties =
     [''NAIROBI CITY'', ''WESTLANDS'', ''DAGORETTI NORTH'', ''DAGORETTI SOUTH'',
      ''LANG'' @ [CHR 0x27] @ ''ATA'', ''KIBRA'', ''ROYSAMBU'', ''KASARANI'', ''RUARAKA'',
      ''EMBAKASI NORTH'', ''EMBAKASI CENTRAL'', ''EMBAKASI EAST'', ''EMBAKASI WEST'',
      ''EMBAKASI SOUTH'', ''MAKADARA'', ''KAMUKUNJI'', ''STAREHE'', ''MATHARE'']"

text \<open>
  \<^verbatim>\<open>normalize_division_name\<close>: the dictionary \<open>name_mapping\<close> is an association
  list, \<^verbatim>\<open>name_mapping.get(division, division)\<close> is the lookup with the argument as
  default.
\<close>

definition name_mapping :: "(string \<times> string) list" where
  "name_mapping = [(''KIBERA'', ''KIBRA'')]"

definition normalize_division_name :: "string \<Rightarrow> string" where
  "normalize_division_name division =
     (case map_of name_mapping division of None \<Rightarrow> division | Some v \<Rightarrow> v)"


section \<open>Subsets\<close>

text \<open>
  \<^verbatim>\<open>df[df[col] == value]\<close> and \<^verbatim>\<open>df[df[col].isin(values)]\<close>: boolean indexing builds a
  new frame from the rows whose mask is true. The column is passed as its selector; a
  null cell equals no string and is in no list of strings.
\<close>

definition subset_by_province :: "'r list \<Rightarrow> string \<Rightarrow> ('r \<Rightarrow> string option) \<Rightarrow> 'r list" where
  "subset_by_province df province province_col =
     filter (\<lambda>r. province_col r = Some province) df"

definition subset_by_level :: "'r list \<Rightarrow> string \<Rightarrow> ('r \<Rightarrow> string option) \<Rightarrow> 'r list" where
  "subset_by_level df level level_col = filter (\<lambda>r. level_col r = Some level) df"

definition isin :: "string option \<Rightarrow> string list \<Rightarrow> bool" where
  "isin c vs = (case c of None \<Rightarrow> False | Some s \<Rightarrow> s \<in> set vs)"

definition subset_by_subcounties ::
  "'r list \<Rightarrow> string list \<Rightarrow> ('r \<Rightarrow> string option) \<Rightarrow> 'r list" where
  "subset_by_subcounties df subcounties subcounty_col =
     filter (\<lambda>r. isin (subcounty_col r) subcounties) df"

section \<open>Aggregation\<close>

text \<open>
  The reductions named in \<^verbatim>\<open>agg\<close>. \<open>count\<close> is the number of cells that are not
  null. \<open>sum\<close> and \<open>mean\<close> are the data-frame library's: what they return depends on
  the dtype the column has in the frame (an int64 sum wraps around, a float64 sum rounds and
  may overflow, null cells are skipped), which the cells of a group do not determine. They
  are the parameters \<open>sum_of\<close> and \<open>mean_of\<close>: each is given the name of the column and
  the cells of the group in row order, nulls included.
\<close>

fun dropna :: "'a option list \<Rightarrow> 'a list" where
  "dropna [] = []"
| "dropna (None # xs) = dropna xs"
| "dropna (Some x # xs) = x # dropna xs"

definition agg_count :: "'a option list \<Rightarrow> nat" where
  "agg_count xs = length (dropna xs)"

type_synonym reduction = "string \<Rightarrow> float64 list \<Rightarrow> float64"

text \<open>
  The copy of the school frame with its added column \<open>Normalized_Division\<close>: each row
  paired with the cell of that column. \<^verbatim>\<open>Series.apply\<close> calls the normalizer on every
  cell; on a null cell the dictionary lookup misses and the null comes back.
\<close>

definition add_normalized ::
  "school_row list \<Rightarrow> (school_row \<Rightarrow> string option) \<Rightarrow> (string option \<times> school_row) list" where
  "add_normalized df school_division_col =
     map (\<lambda>r. (map_option normalize_division_name (school_division_col r), r)) df"

text \<open>The row of \<open>school_stats\<close>, under the column names the code assigns.\<close>

record school_stat =
  st_Division :: string
  st_School_Count :: nat
  st_Total_Enrollment :: float64
  st_Total_Boys :: float64
  st_Total_Girls :: float64
  st_Total_Classrooms :: float64
  st_Total_Teachers :: float64
  st_Latitude :: float64
  st_Longitude :: float64

text \<open>
  \<^verbatim>\<open>groupby('Normalized_Division').agg({...}).reset_index()\<close>: one group per key that
  is not null (\<open>groupby\<close> drops null keys), groups in ascending key order.
\<close>

definition group_keys :: "(string option \<times> school_row) list \<Rightarrow> string list" where
  "group_keys kdf = sort (remdups (dropna (map fst kdf)))"

definition group_of :: "(string option \<times> school_row) list \<Rightarrow> string \<Rightarrow> school_row list" where
  "group_of kdf k = map snd (filter (\<lambda>kr. fst kr = Some k) kdf)"

definition agg_row :: "reduction \<Rightarrow> reduction \<Rightarrow> string \<Rightarrow> school_row list \<Rightarrow> school_stat" where
  "agg_row sum_of mean_of k g =
     \<lparr> st_Division = k,
       st_School_Count = agg_count (map FID g),
       st_Total_Enrollment = sum_of ''TotalEnrol'' (map TotalEnrol g),
       st_Total_Boys = sum_of ''TotalBoys'' (map TotalBoys g),
       st_Total_Girls = sum_of ''TotalGirls'' (map TotalGirls g),
       st_Total_Classrooms = sum_of ''No_Classrm'' (map No_Classrm g),
       st_Total_Teachers = sum_of ''TeachersTo'' (map TeachersTo g),
       st_Latitude = mean_of ''Latitude'' (map Latitude g),
       st_Longitude = mean_of ''Longitude'' (map Longitude g) \<rparr>"

definition groupby_agg ::
  "reduction \<Rightarrow> reduction \<Rightarrow> (string option \<times> school_row) list \<Rightarrow> school_stat list" where
  "groupby_agg sum_of mean_of kdf =
     map (\<lambda>k. agg_row sum_of mean_of k (group_of kdf k)) (group_keys kdf)"

section \<open>The outer merge\<close>

datatype merge_tag = both | left_only | right_only

text \<open>
  A row of the merged frame: the columns of \<open>school_stats\<close>, the columns of the
  population frame and the indicator column \<open>_merge\<close>. Every column of the left side
  is nullable here: the name and the count are \<open>None\<close>, a number is NaN.
\<close>

record merged_row =
  Division_m :: "string option"
  School_Count :: "nat option"
  Total_Enrollment :: float64
  Total_Boys :: float64
  Total_Girls :: float64
  Total_Classrooms :: float64
  Total_Teachers :: float64
  Latitude_m :: float64
  Longitude_m :: float64
  County_Sub_County_m :: "string option"
  Total_star_m :: cell
  At_School_m :: cell
  Left_After_Completion_m :: cell
  Left_Before_Completion_m :: cell
  Never_Been_m :: cell
  merge_ind :: merge_tag

definition merged_of :: "school_stat option \<Rightarrow> pop_row option \<Rightarrow> merge_tag \<Rightarrow> merged_row" where
  "merged_of l r t =
     \<lparr> Division_m = map_option st_Division l,
       School_Count = map_option st_School_Count l,
       Total_Enrollment = (case l of None \<Rightarrow> NaN | Some s \<Rightarrow> st_Total_Enrollment s),
       Total_Boys = (case l of None \<Rightarrow> NaN | Some s \<Rightarrow> st_Total_Boys s),
       Total_Girls = (case l of None \<Rightarrow> NaN | Some s \<Rightarrow> st_Total_Girls s),
       Total_Classrooms = (case l of None \<Rightarrow> NaN | Some s \<Rightarrow> st_Total_Classrooms s),
       Total_Teachers = (case l of None \<Rightarrow> NaN | Some s \<Rightarrow> st_Total_Teachers s),
       Latitude_m = (case l of None \<Rightarrow> NaN | Some s \<Rightarrow> st_Latitude s),
       Longitude_m = (case l of None \<Rightarrow> NaN | Some s \<Rightarrow> st_Longitude s),
       County_Sub_County_m = Option.bind r County_Sub_County,
       Total_star_m = (case r of None \<Rightarrow> Num NaN | Some p \<Rightarrow> Total_star p),
       At_School_m = (case r of None \<Rightarrow> Num NaN | Some p \<Rightarrow> At_School p),
       Left_After_Completion_m = (case r of None \<Rightarrow> Num NaN | Some p \<Rightarrow> Left_After_Completion p),
       Left_Before_Completion_m = (case r of None \<Rightarrow> Num NaN | Some p \<Rightarrow> Left_Before_Completion p),
       Never_Been_m = (case r of None \<Rightarrow> Num NaN | Some p \<Rightarrow> Never_Been p),
       merge_ind = t \<rparr>"

text \<open>
  The key a merged row is ordered by: the join key, null keys last.
\<close>

definition merge_key :: "merged_row \<Rightarrow> bool \<times> string" where
  "merge_key m =
     (case Division_m m of Some d \<Rightarrow> (False, d)
      | None \<Rightarrow> (case County_Sub_County_m m of Some c \<Rightarrow> (False, c) | None \<Rightarrow> (True, [])))"

text \<open>
  \<^verbatim>\<open>left.merge(right, left_on='Division', right_on=pop_subcounty_col, how='outer',
  indicator=True)\<close>: a pair for every left row and right row with equal keys, then the
  left rows no right row matches, then the right rows no left row matches, the whole
  ordered by key (a stable sort). The left key is never null; a right row with a null key
  matches nothing. The population frame has one column of names, so
  \<open>pop_subcounty_col\<close> is taken at its default, \<open>County/ Sub-County\<close>.
\<close>

definition key_match :: "school_stat \<Rightarrow> pop_row \<Rightarrow> bool" where
  "key_match s p = (County_Sub_County p = Some (st_Division s))"

definition outer_merge :: "school_stat list \<Rightarrow> pop_row list \<Rightarrow> merged_row list" where
  "outer_merge left right =
     sort_key merge_key
       (concat (map (\<lambda>s. map (\<lambda>p. merged_of (Some s) (Some p) both)
                            (filter (key_match s) right)) left)
        @ map (\<lambda>s. merged_of (Some s) None left_only)
              (filter (\<lambda>s. \<not> (\<exists>p \<in> set right. key_match s p)) left)
        @ map (\<lambda>p. merged_of None (Some p) right_only)
              (filter (\<lambda>p. \<not> (\<exists>s \<in> set left. key_match s p)) right))"

definition merge_schools_population ::
  "reduction \<Rightarrow> reduction \<Rightarrow> school_row list \<Rightarrow> pop_row list
     \<Rightarrow> (school_row \<Rightarrow> string option) \<Rightarrow> merged_row list" where
  "merge_schools_population sum_of mean_of school_df pop_df school_division_col =
     outer_merge (groupby_agg sum_of mean_of (add_normalized school_df school_division_col))
       pop_df"

section \<open>Derived metrics\<close>

text \<open>
  float64 division and multiplication as numpy performs them on arrays: a zero divisor
  gives an infinity or NaN and raises nothing. Rounding, overflow and the sign of zero
  are not modelled.
\<close>

fun fdiv :: "float64 \<Rightarrow> float64 \<Rightarrow> float64" where
  "fdiv NaN _ = NaN"
| "fdiv _ NaN = NaN"
| "fdiv (Fin x) (Fin y) =
     (if y = 0 then (if x = 0 then NaN else if 0 < x then PInf else NInf) else Fin (x / y))"
| "fdiv (Fin x) PInf = Fin 0"
| "fdiv (Fin x) NInf = Fin 0"
| "fdiv PInf (Fin y) = (if y < 0 then NInf else PInf)"
| "fdiv NInf (Fin y) = (if y < 0 then PInf else NInf)"
| "fdiv PInf PInf = NaN"
| "fdiv PInf NInf = NaN"
| "fdiv NInf PInf = NaN"
| "fdiv NInf NInf = NaN"

fun fmul :: "float64 \<Rightarrow> float64 \<Rightarrow> float64" where
  "fmul NaN _ = NaN"
| "fmul _ NaN = NaN"
| "fmul (Fin x) (Fin y) = Fin (x * y)"
| "fmul (Fin x) PInf = (if x = 0 then NaN else if 0 < x then PInf else NInf)"
| "fmul (Fin x) NInf = (if x = 0 then NaN else if 0 < x then NInf else PInf)"
| "fmul PInf (Fin y) = (if y = 0 then NaN else if 0 < y then PInf else NInf)"
| "fmul NInf (Fin y) = (if y = 0 then NaN else if 0 < y then NInf else PInf)"
| "fmul PInf PInf = PInf"
| "fmul PInf NInf = NInf"
| "fmul NInf PInf = NInf"
| "fmul NInf NInf = PInf"

datatype error = AttributeError | ValueError

text \<open>
  A column read from a CSV file has dtype \<open>object\<close> exactly when it holds text; the
  merge and the row filter keep the dtype of a column.
\<close>

definition dtype_object :: "cell list \<Rightarrow> bool" where
  "dtype_object col = (\<exists>c \<in> set col. is_Text c)"

text \<open>
  The \<^verbatim>\<open>.str\<close> accessor of an \<open>object\<close> series is refused (AttributeError) when
  the series holds numbers and no text; a series of nulls only is accepted.
\<close>

definition str_accessor_ok :: "cell list \<Rightarrow> bool" where
  "str_accessor_ok series = ((\<exists>c \<in> set series. is_Text c) \<or> (\<forall>c \<in> set series. c = Num NaN))"

text \<open>\<^verbatim>\<open>.str.replace(',', '')\<close>: on a cell that is not text the result is null.\<close>

definition str_replace_comma :: "cell \<Rightarrow> cell" where
  "str_replace_comma c =
     (case c of Text s \<Rightarrow> Text (filter (\<lambda>ch. ch \<noteq> CHR '','') s) | Num x \<Rightarrow> Num NaN)"

text \<open>
  \<^verbatim>\<open>.astype(float)\<close>: every text cell goes through Python's \<^verbatim>\<open>float\<close>, which is the
  parameter \<open>to_float\<close> (\<open>None\<close> where it raises ValueError); the first failure ends
  the conversion.
\<close>

fun astype_float :: "(string \<Rightarrow> float64 option) \<Rightarrow> cell list \<Rightarrow> error + cell list" where
  "astype_float to_float [] = Inr []"
| "astype_float to_float (Num x # cs) =
     (case astype_float to_float cs of Inl e \<Rightarrow> Inl e | Inr ys \<Rightarrow> Inr (Num x # ys))"
| "astype_float to_float (Text s # cs) =
     (case to_float s of None \<Rightarrow> Inl ValueError
      | Some x \<Rightarrow> (case astype_float to_float cs of Inl e \<Rightarrow> Inl e | Inr ys \<Rightarrow> Inr (Num x # ys)))"

text \<open>
  \<^verbatim>\<open>clean_numeric\<close>; the flag is \<^verbatim>\<open>series.dtype == 'object'\<close>.
\<close>

definition clean_numeric ::
  "(string \<Rightarrow> float64 option) \<Rightarrow> bool \<Rightarrow> cell list \<Rightarrow> error + cell list" where
  "clean_numeric to_float is_object series =
     (if is_object
      then (if str_accessor_ok series
            then astype_float to_float (map str_replace_comma series)
            else Inl AttributeError)
      else Inr series)"

text \<open>
  The number in a cell of a numeric column, and the school count as the float it is in
  the merged frame.
\<close>

fun the_num :: "cell \<Rightarrow> float64" where
  "the_num (Num x) = x"
| "the_num (Text s) = NaN"

definition count_float :: "nat option \<Rightarrow> float64" where
  "count_float c = (case c of None \<Rightarrow> NaN | Some n \<Rightarrow> Fin (real n))"

record metrics_row = merged_row +
  Completed_Rate :: float64

text \<open>
  \<^verbatim>\<open>calculate_completion_metrics\<close>: the matched rows, the five population columns
  cleaned one after the other (all five are columns of a merged frame, so the test
  \<^verbatim>\<open>col in df.columns\<close> holds), then the rate.
\<close>

definition with_rate :: "merged_row \<Rightarrow> cell \<Rightarrow> cell \<Rightarrow> cell \<Rightarrow> cell \<Rightarrow> cell \<Rightarrow> metrics_row" where
  "with_rate m t a la lb n =
     merged_row.extend
       (m\<lparr> Total_star_m := t, At_School_m := a, Left_After_Completion_m := la,
           Left_Before_Completion_m := lb, Never_Been_m := n \<rparr>)
       (metrics_row.fields (fmul (fdiv (the_num la) (the_num t)) (Fin 100)))"

definition calculate_completion_metrics ::
  "(string \<Rightarrow> float64 option) \<Rightarrow> merged_row list \<Rightarrow> error + metrics_row list" where
  "calculate_completion_metrics to_float merged_df =
     (let df = filter (\<lambda>m. merge_ind m = both) merged_df;
          clean = (\<lambda>col. clean_numeric to_float (dtype_object (map col merged_df)) (map col df))
      in case clean Total_star_m of Inl e \<Rightarrow> Inl e | Inr tot \<Rightarrow>
         (case clean At_School_m of Inl e \<Rightarrow> Inl e | Inr ats \<Rightarrow>
         (case clean Left_After_Completion_m of Inl e \<Rightarrow> Inl e | Inr laf \<Rightarrow>
         (case clean Left_Before_Completion_m of Inl e \<Rightarrow> Inl e | Inr lbf \<Rightarrow>
         (case clean Never_Been_m of Inl e \<Rightarrow> Inl e | Inr nev \<Rightarrow>
            Inr (map (\<lambda>(m, t, a, la, lb, n). with_rate m t a la lb n)
                   (zip df (zip tot (zip ats (zip laf (zip lbf nev)))))))))))"

text \<open>
  \<^verbatim>\<open>create_schools_per_capita_charts\<close>, up to the derived columns (the ordering of the
  rows and the drawing are not modelled).
\<close>

record per_capita_row = metrics_row +
  Total_Pop :: float64
  Schools_per_10k :: float64
  Students_per_School :: float64

definition with_per_capita :: "metrics_row \<Rightarrow> cell \<Rightarrow> cell \<Rightarrow> per_capita_row" where
  "with_per_capita m t la =
     metrics_row.extend
       (m\<lparr> Completed_Rate := fmul (fdiv (the_num la) (the_num t)) (Fin 100) \<rparr>)
       (per_capita_row.fields (the_num t)
          (fmul (fdiv (count_float (School_Count m)) (the_num t)) (Fin 10000))
          (fdiv (Total_Enrollment m) (count_float (School_Count m))))"

definition create_schools_per_capita_charts ::
  "(string \<Rightarrow> float64 option) \<Rightarrow> metrics_row list \<Rightarrow> error + per_capita_row list" where
  "create_schools_per_capita_charts to_float metrics_df =
     (case clean_numeric to_float (dtype_object (map Total_star_m metrics_df))
             (map Total_star_m metrics_df) of
        Inl e \<Rightarrow> Inl e
      | Inr tot \<Rightarrow>
         (case clean_numeric to_float (dtype_object (map Left_After_Completion_m metrics_df))
                 (map Left_After_Completion_m metrics_df) of
            Inl e \<Rightarrow> Inl e
          | Inr laf \<Rightarrow>
              Inr (map (\<lambda>(m, t, la). with_per_capita m t la) (zip metrics_df (zip tot laf)))))"

section \<open>Frames in a store\<close>

text \<open>
  A data frame is a mutable object: the code holds references to frames, copies one and
  assigns a column to the copy. The store is the list of the frames allocated so far, a
  reference is an index into it. \<open>SchoolNormDF\<close> is a school frame that has the column
  \<open>Normalized_Division\<close>. An operation gives \<open>None\<close> where the code raises (a
  dangling reference, a missing column, a column named \<open>_merge\<close> on the right).
\<close>

datatype frame =
    SchoolDF "school_row list"
  | SchoolNormDF "(string option \<times> school_row) list"
  | PopDF "pop_row list"
  | StatsDF "school_stat list"
  | MergedDF "merged_row list"

type_synonym store = "frame list"

definition frame_at :: "store \<Rightarrow> nat \<Rightarrow> frame option" where
  "frame_at h a = (if a < length h then Some (h ! a) else None)"

definition new_frame :: "store \<Rightarrow> frame \<Rightarrow> store \<times> nat" where
  "new_frame h f = (h @ [f], length h)"

definition subset_by_province_st :: "store \<Rightarrow> nat \<Rightarrow> string \<Rightarrow> (store \<times> nat) option" where
  "subset_by_province_st h df province =
     (case frame_at h df of
        Some (SchoolDF rows) \<Rightarrow>
          Some (new_frame h (SchoolDF (subset_by_province rows province Province)))
      | Some (SchoolNormDF krows) \<Rightarrow>
          Some (new_frame h (SchoolNormDF (subset_by_province krows province (\<lambda>kr. Province (snd kr)))))
      | _ \<Rightarrow> None)"

definition subset_by_level_st :: "store \<Rightarrow> nat \<Rightarrow> string \<Rightarrow> (store \<times> nat) option" where
  "subset_by_level_st h df level =
     (case frame_at h df of
        Some (SchoolDF rows) \<Rightarrow> Some (new_frame h (SchoolDF (subset_by_level rows level Level)))
      | Some (SchoolNormDF krows) \<Rightarrow>
          Some (new_frame h (SchoolNormDF (subset_by_level krows level (\<lambda>kr. Level (snd kr)))))
      | _ \<Rightarrow> None)"

definition subset_by_subcounties_st :: "store \<Rightarrow> nat \<Rightarrow> string list \<Rightarrow> (store \<times> nat) option" where
  "subset_by_subcounties_st h df subcounties =
     (case frame_at h df of
        Some (PopDF rows) \<Rightarrow>
          Some (new_frame h (PopDF (subset_by_subcounties rows subcounties County_Sub_County)))
      | Some (MergedDF rows) \<Rightarrow>
          Some (new_frame h (MergedDF (subset_by_subcounties rows subcounties County_Sub_County_m)))
      | _ \<Rightarrow> None)"

text \<open>\<^verbatim>\<open>df.copy()\<close>: a new frame with the same contents.\<close>

definition df_copy :: "store \<Rightarrow> nat \<Rightarrow> (store \<times> nat) option" where
  "df_copy h a = map_option (new_frame h) (frame_at h a)"

text \<open>
  \<^verbatim>\<open>df['Normalized_Division'] = df['Division'].apply(normalize_division_name)\<close>: the
  frame at the reference is changed in place; a column of that name is overwritten.
\<close>

definition set_normalized :: "store \<Rightarrow> nat \<Rightarrow> store option" where
  "set_normalized h a =
     (case frame_at h a of
        Some (SchoolDF rows) \<Rightarrow> Some (h[a := SchoolNormDF (add_normalized rows Division)])
      | Some (SchoolNormDF krows) \<Rightarrow>
          Some (h[a := SchoolNormDF (add_normalized (map snd krows) Division)])
      | _ \<Rightarrow> None)"

text \<open>
  \<^verbatim>\<open>merge_schools_population\<close> on references, statement by statement: the copy, the
  column assigned to the copy, the aggregate as a new frame (its columns renamed in
  place), the merge as a new frame, whose reference is returned.
\<close>

definition merge_schools_population_st ::
  "reduction \<Rightarrow> reduction \<Rightarrow> store \<Rightarrow> nat \<Rightarrow> nat \<Rightarrow> (store \<times> nat) option" where
  "merge_schools_population_st sum_of mean_of h school_df pop_df =
     (case df_copy h school_df of None \<Rightarrow> None
      | Some (h1, school_df') \<Rightarrow>
     (case set_normalized h1 school_df' of None \<Rightarrow> None
      | Some h2 \<Rightarrow>
     (case frame_at h2 school_df' of
        Some (SchoolNormDF krows) \<Rightarrow>
          (case new_frame h2 (StatsDF (groupby_agg sum_of mean_of krows)) of (h3, school_stats) \<Rightarrow>
          (case (frame_at h3 school_stats, frame_at h3 pop_df) of
             (Some (StatsDF stats), Some (PopDF prows)) \<Rightarrow>
                Some (new_frame h3 (MergedDF (outer_merge stats prows)))
           | _ \<Rightarrow> None))
      | _ \<Rightarrow> None)))"

section \<open>Notions in the words of the specification\<close>

text \<open>
  A merged row carries an aggregate row when its school columns are the columns of that
  row, and carries a population row when its population columns are the columns of that
  row; the columns of a side are null when the name and the count are \<open>None\<close> and the
  numbers NaN.
\<close>

definition carries_stat :: "merged_row \<Rightarrow> school_stat \<Rightarrow> bool" where
  "carries_stat m s =
     (Division_m m = Some (st_Division s) \<and> School_Count m = Some (st_School_Count s)
      \<and> Total_Enrollment m = st_Total_Enrollment s \<and> Total_Boys m = st_Total_Boys s
      \<and> Total_Girls m = st_Total_Girls s \<and> Total_Classrooms m = st_Total_Classrooms s
      \<and> Total_Teachers m = st_Total_Teachers s \<and> Latitude_m m = st_Latitude s
      \<and> Longitude_m m = st_Longitude s)"

definition carries_pop :: "merged_row \<Rightarrow> pop_row \<Rightarrow> bool" where
  "carries_pop m p =
     (County_Sub_County_m m = County_Sub_County p \<and> Total_star_m m = Total_star p
      \<and> At_School_m m = At_School p \<and> Left_After_Completion_m m = Left_After_Completion p
      \<and> Left_Before_Completion_m m = Left_Before_Completion p \<and> Never_Been_m m = Never_Been p)"

definition school_columns_null :: "merged_row \<Rightarrow> bool" where
  "school_columns_null m =
     (Division_m m = None \<and> School_Count m = None \<and> Total_Enrollment m = NaN
      \<and> Total_Boys m = NaN \<and> Total_Girls m = NaN \<and> Total_Classrooms m = NaN
      \<and> Total_Teachers m = NaN \<and> Latitude_m m = NaN \<and> Longitude_m m = NaN)"

definition population_columns_null :: "merged_row \<Rightarrow> bool" where
  "population_columns_null m =
     (County_Sub_County_m m = None \<and> Total_star_m m = Num NaN \<and> At_School_m m = Num NaN
      \<and> Left_After_Completion_m m = Num NaN \<and> Left_Before_Completion_m m = Num NaN
      \<and> Never_Been_m m = Num NaN)"

text \<open>
  The number a cell of the merged frame stands for, in the words of the specification:
  a text cell is stripped of its commas and converted, a number is itself. The flag tells
  whether the column is a text column; in a text column a cell that is not text counts as
  null.
\<close>

definition numeric_value :: "(string \<Rightarrow> float64 option) \<Rightarrow> bool \<Rightarrow> cell \<Rightarrow> float64 \<Rightarrow> bool" where
  "numeric_value to_float is_object c x =
     (case c of
        Text s \<Rightarrow> is_object \<and> to_float (filter (\<lambda>ch. ch \<noteq> CHR '','') s) = Some x
      | Num y \<Rightarrow> x = (if is_object then NaN else y))"

definition text_parses :: "(string \<Rightarrow> float64 option) \<Rightarrow> cell \<Rightarrow> bool" where
  "text_parses to_float c =
     (case c of Text s \<Rightarrow> to_float (filter (\<lambda>ch. ch \<noteq> CHR '','') s) \<noteq> None | Num y \<Rightarrow> False)"

section \<open>The subcounties of the completion-rate charts\<close>

text \<open>
  \<^verbatim>\<open>main\<close> of \<^verbatim>\<open>visualize_completion_rates.py\<close> narrows the population frame with
  \<^verbatim>\<open>isin\<close> and a list of its own; the filter is \<open>subset_by_subcounties\<close> with this
  list.
\<close>

definition completion_rates_subcounties :: "string list" where
  "completion_rates_subcounties =
     [''NAIROBI CITY'', ''DAGORETTI'', ''EMBAKASI'', ''KAMUKUNJI'', ''KASARANI'', ''KIBRA'',
      ''LANG'' @ [CHR 0x27] @ ''ATA'', ''MAKADARA'', ''MATHARE'', ''STAREHE'', ''WESTLANDS'']"

section \<open>Example tables\<close>

text \<open>Concrete rows, for the instances at which the theorems below are exercised.\<close>

definition example_school :: "string option \<Rightarrow> school_row" where
  "example_school d =
     \<lparr> Province = Some ''NAIROBI'', Level = Some ''PRIMARY SCHOOL'', Division = d,
       FID = Some 1, TotalEnrol = Fin 400, TotalBoys = Fin 210, TotalGirls = Fin 190,
       No_Classrm = Fin 8, TeachersTo = Fin 10, Latitude = Fin (-1), Longitude = Fin 36 \<rparr>"

definition example_pop :: "string option \<Rightarrow> cell \<Rightarrow> cell \<Rightarrow> pop_row" where
  "example_pop c tot completed =
     \<lparr> County_Sub_County = c, Total_star = tot, At_School = Num NaN,
       Left_After_Completion = completed, Left_Before_Completion = Num NaN,
       Never_Been = Num NaN \<rparr>"

definition example_pop_text :: "string \<Rightarrow> string \<Rightarrow> string \<Rightarrow> pop_row" where
  "example_pop_text c tot completed =
     \<lparr> County_Sub_County = Some c, Total_star = Text tot, At_School = Text ''3,000'',
       Left_After_Completion = Text completed, Left_Before_Completion = Text ''2,000'',
       Never_Been = Text ''1,000'' \<rparr>"

text \<open>
  Python's \<^verbatim>\<open>float\<close> on the strings of the examples (and failing on every other
  string), to instantiate \<open>to_float\<close>.
\<close>

definition example_to_float :: "string \<Rightarrow> float64 option" where
  "example_to_float =
     map_of [(''10000'', Fin 10000), (''8000'', Fin 8000), (''4000'', Fin 4000),
             (''3000'', Fin 3000), (''2000'', Fin 2000), (''1000'', Fin 1000), (''0'', Fin 0)]"

text \<open>
  The sum and the mean of a column of a few small numbers and nulls, where neither
  wrap-around nor rounding occurs, to instantiate \<open>sum_of\<close> and \<open>mean_of\<close>.
\<close>

fun finite_cells :: "float64 list \<Rightarrow> real list" where
  "finite_cells [] = []"
| "finite_cells (Fin x # cs) = x # finite_cells cs"
| "finite_cells (c # cs) = finite_cells cs"

definition example_sum :: reduction where
  "example_sum name cs = Fin (sum_list (finite_cells cs))"

definition example_mean :: reduction where
  "example_mean name cs =
     (if finite_cells cs = [] then NaN
      else Fin (sum_list (finite_cells cs) / real (length (finite_cells cs))))"

section \<open>Auxiliary facts about lists and groups\<close>

lemma dropna_conv: "dropna xs = map the (filter (\<lambda>x. x \<noteq> None) xs)"
  by (induction xs rule: dropna.induct) simp_all

lemma set_dropna: "set (dropna xs) = {x. Some x \<in> set xs}"
  by (induction xs rule: dropna.induct) auto

lemma length_filter_disj:
  "(\<And>x. x \<in> set xs \<Longrightarrow> \<not> (P x \<and> R x)) \<Longrightarrow>
   length (filter P xs) + length (filter R xs) = length (filter (\<lambda>x. P x \<or> R x) xs)"
  by (induction xs) auto

lemma sum_groups:
  "distinct ks \<Longrightarrow>
   sum_list (map (\<lambda>k. length (filter (\<lambda>x. f x = Some k \<and> Q x) xs)) ks)
     = length (filter (\<lambda>x. f x \<in> Some ` set ks \<and> Q x) xs)"
proof (induction ks)
  case Nil
  then show ?case by simp
next
  case (Cons k ks)
  have "length (filter (\<lambda>x. f x = Some k \<and> Q x) xs)
          + length (filter (\<lambda>x. f x \<in> Some ` set ks \<and> Q x) xs)
        = length (filter (\<lambda>x. (f x = Some k \<and> Q x) \<or> (f x \<in> Some ` set ks \<and> Q x)) xs)"
    using Cons.prems by (intro length_filter_disj) auto
  also have "\<dots> = length (filter (\<lambda>x. f x \<in> Some ` set (k # ks) \<and> Q x) xs)"
    by (rule arg_cong [where f = length], rule filter_cong) auto
  finally show ?case using Cons by simp
qed

lemma distinct_group_keys: "distinct (group_keys kdf)"
  by (simp add: group_keys_def)

lemma set_group_keys: "set (group_keys kdf) = {k. Some k \<in> fst ` set kdf}"
  by (auto simp: group_keys_def set_dropna)

lemma key_in_group_keys:
  "x \<in> set kdf \<Longrightarrow> fst x \<in> Some ` set (group_keys kdf) \<longleftrightarrow> fst x \<noteq> None"
proof (cases "fst x")
  case None
  then show ?thesis by auto
next
  case (Some k)
  assume "x \<in> set kdf"
  with Some have "Some k \<in> fst ` set kdf" by force
  with Some show ?thesis by (simp add: set_group_keys)
qed

lemma map_st_Division_groupby: "map st_Division (groupby_agg sum_of mean_of kdf) = group_keys kdf"
  by (simp add: groupby_agg_def agg_row_def comp_def)

lemma count_group:
  "agg_count (map FID (group_of kdf k))
     = length (filter (\<lambda>kr. fst kr = Some k \<and> FID (snd kr) \<noteq> None) kdf)"
  by (simp add: agg_count_def group_of_def dropna_conv filter_map comp_def conj_commute)

lemma sum_counts:
  "sum_list (map st_School_Count (groupby_agg sum_of mean_of kdf))
     = length (filter (\<lambda>kr. fst kr \<noteq> None \<and> FID (snd kr) \<noteq> None) kdf)"
proof -
  have "sum_list (map st_School_Count (groupby_agg sum_of mean_of kdf))
        = sum_list (map (\<lambda>k. length (filter (\<lambda>kr. fst kr = Some k \<and> FID (snd kr) \<noteq> None) kdf))
            (group_keys kdf))"
    by (simp add: groupby_agg_def agg_row_def comp_def count_group)
  also have "\<dots> = length (filter (\<lambda>kr. fst kr \<in> Some ` set (group_keys kdf) \<and> FID (snd kr) \<noteq> None) kdf)"
    by (rule sum_groups) (rule distinct_group_keys)
  also have "\<dots> = length (filter (\<lambda>kr. fst kr \<noteq> None \<and> FID (snd kr) \<noteq> None) kdf)"
    by (rule arg_cong [where f = length], rule filter_cong [OF refl]) (simp add: key_in_group_keys)
  finally show ?thesis .
qed

section \<open>Auxiliary facts about the merge\<close>

lemma merge_ind_merged_of: "merge_ind (merged_of l r t) = t"
  by (simp add: merged_of_def)

lemma set_outer_merge:
  "set (outer_merge left right) =
     {merged_of (Some s) (Some p) both | s p. s \<in> set left \<and> p \<in> set right \<and> key_match s p}
     \<union> {merged_of (Some s) None left_only | s.
          s \<in> set left \<and> \<not> (\<exists>p \<in> set right. key_match s p)}
     \<union> {merged_of None (Some p) right_only | p.
          p \<in> set right \<and> \<not> (\<exists>s \<in> set left. key_match s p)}"
  by (auto simp: outer_merge_def)

lemma length_outer_merge:
  "length (outer_merge left right) =
     sum_list (map (\<lambda>s. length (filter (key_match s) right)) left)
     + length (filter (\<lambda>s. \<not> (\<exists>p \<in> set right. key_match s p)) left)
     + length (filter (\<lambda>p. \<not> (\<exists>s \<in> set left. key_match s p)) right)"
  by (simp add: outer_merge_def length_concat comp_def)

lemma key_match_abs: "key_match s = (\<lambda>p. County_Sub_County p = Some (st_Division s))"
  by (simp add: fun_eq_iff key_match_def)

lemma matched_left_le_pairs:
  "length (filter (\<lambda>s. \<exists>p \<in> set right. key_match s p) left)
     \<le> sum_list (map (\<lambda>s. length (filter (key_match s) right)) left)"
proof (induction left)
  case Nil
  then show ?case by simp
next
  case (Cons s left)
  show ?case
  proof (cases "\<exists>p \<in> set right. key_match s p")
    case True
    then have "filter (key_match s) right \<noteq> []"
      by (simp add: filter_empty_conv)
    then have "1 \<le> length (filter (key_match s) right)"
      by (cases "filter (key_match s) right") simp_all
    with True Cons show ?thesis by simp
  next
    case False
    with Cons show ?thesis by simp
  qed
qed

lemma pairs_eq_matched_right:
  assumes "distinct (map st_Division left)"
  shows "sum_list (map (\<lambda>s. length (filter (key_match s) right)) left)
           = length (filter (\<lambda>p. \<exists>s \<in> set left. key_match s p) right)"
proof -
  have "sum_list (map (\<lambda>k. length (filter (\<lambda>p. County_Sub_County p = Some k \<and> True) right))
            (map st_Division left))
        = length (filter (\<lambda>p. County_Sub_County p \<in> Some ` set (map st_Division left) \<and> True) right)"
    using assms by (rule sum_groups)
  moreover have "(\<lambda>p. County_Sub_County p \<in> Some ` set (map st_Division left) \<and> True)
                   = (\<lambda>p. \<exists>s \<in> set left. key_match s p)"
    by (auto simp: key_match_def fun_eq_iff)
  ultimately show ?thesis by (simp add: key_match_abs comp_def)
qed

lemma length_outer_merge_distinct:
  assumes "distinct (map st_Division left)"
  shows "length (outer_merge left right) =
           length right + length (filter (\<lambda>s. \<not> (\<exists>p \<in> set right. key_match s p)) left)"
proof -
  have "length (filter (\<lambda>p. \<exists>s \<in> set left. key_match s p) right)
          + length (filter (\<lambda>p. \<not> (\<exists>s \<in> set left. key_match s p)) right) = length right"
    by (rule sum_length_filter_compl)
  then show ?thesis
    by (simp add: length_outer_merge pairs_eq_matched_right [OF assms])
qed

lemma length_outer_merge_ge_left: "length left \<le> length (outer_merge left right)"
proof -
  have "length (filter (\<lambda>s. \<exists>p \<in> set right. key_match s p) left)
          + length (filter (\<lambda>s. \<not> (\<exists>p \<in> set right. key_match s p)) left) = length left"
    by (rule sum_length_filter_compl)
  then show ?thesis
    using matched_left_le_pairs [of right left] by (simp add: length_outer_merge)
qed

lemma tags_partition:
  "length (filter (\<lambda>m. merge_ind m = both) ms) + length (filter (\<lambda>m. merge_ind m = left_only) ms)
     + length (filter (\<lambda>m. merge_ind m = right_only) ms) = length ms"
proof (induction ms)
  case Nil
  then show ?case by simp
next
  case (Cons m ms)
  then show ?case by (cases "merge_ind m") simp_all
qed

lemma distinct_divisions_groupby: "distinct (map st_Division (groupby_agg sum_of mean_of kdf))"
  by (simp add: map_st_Division_groupby distinct_group_keys)

lemma both_in_outer_merge:
  "s \<in> set left \<Longrightarrow> p \<in> set right \<Longrightarrow> key_match s p \<Longrightarrow>
   merged_of (Some s) (Some p) both \<in> set (outer_merge left right)"
  unfolding set_outer_merge by blast

lemma left_in_outer_merge:
  "s \<in> set left \<Longrightarrow> \<not> (\<exists>p \<in> set right. key_match s p) \<Longrightarrow>
   merged_of (Some s) None left_only \<in> set (outer_merge left right)"
  unfolding set_outer_merge by blast

lemma right_in_outer_merge:
  "p \<in> set right \<Longrightarrow> \<not> (\<exists>s \<in> set left. key_match s p) \<Longrightarrow>
   merged_of None (Some p) right_only \<in> set (outer_merge left right)"
  unfolding set_outer_merge by blast

lemma outer_merge_cases:
  assumes "m \<in> set (outer_merge left right)"
  obtains
    (both) s p where "s \<in> set left" "p \<in> set right" "key_match s p"
      "m = merged_of (Some s) (Some p) both"
  | (left_only) s where "s \<in> set left" "\<not> (\<exists>p \<in> set right. key_match s p)"
      "m = merged_of (Some s) None left_only"
  | (right_only) p where "p \<in> set right" "\<not> (\<exists>s \<in> set left. key_match s p)"
      "m = merged_of None (Some p) right_only"
  using assms unfolding set_outer_merge by blast

lemma left_row_appears:
  assumes "s \<in> set left" and "\<And>r t. P (merged_of (Some s) r t)"
  shows "\<exists>m \<in> set (outer_merge left right). P m \<and> merge_ind m \<noteq> right_only"
proof (cases "\<exists>p \<in> set right. key_match s p")
  case True
  then obtain p where p: "p \<in> set right" "key_match s p" by blast
  show ?thesis
    by (rule bexI [OF _ both_in_outer_merge [OF assms(1) p]])
       (simp add: merge_ind_merged_of assms(2))
next
  case False
  show ?thesis
    by (rule bexI [OF _ left_in_outer_merge [OF assms(1) False]])
       (simp add: merge_ind_merged_of assms(2))
qed

lemma right_row_appears:
  assumes "p \<in> set right" and "\<And>l t. Q (merged_of l (Some p) t)"
  shows "\<exists>m \<in> set (outer_merge left right). Q m \<and> merge_ind m \<noteq> left_only"
proof (cases "\<exists>s \<in> set left. key_match s p")
  case True
  then obtain s where s: "s \<in> set left" "key_match s p" by blast
  show ?thesis
    by (rule bexI [OF _ both_in_outer_merge [OF s(1) assms(1) s(2)]])
       (simp add: merge_ind_merged_of assms(2))
next
  case False
  show ?thesis
    by (rule bexI [OF _ right_in_outer_merge [OF assms(1) False]])
       (simp add: merge_ind_merged_of assms(2))
qed

lemma outer_merge_row:
  assumes "m \<in> set (outer_merge left right)"
    and cs: "\<And>s r t. P (merged_of (Some s) r t) s"
    and cp: "\<And>l p t. Q (merged_of l (Some p) t) p"
    and np: "\<And>l t. NP (merged_of l None t)"
    and ns: "\<And>r t. NS (merged_of None r t)"
  shows "(merge_ind m = both \<longrightarrow>
           (\<exists>s \<in> set left. \<exists>p \<in> set right.
              County_Sub_County p = Some (st_Division s) \<and> P m s \<and> Q m p))
      \<and> (merge_ind m = left_only \<longrightarrow>
           (\<exists>s \<in> set left.
              (\<forall>p \<in> set right. County_Sub_County p \<noteq> Some (st_Division s)) \<and> P m s)
           \<and> NP m)
      \<and> (merge_ind m = right_only \<longrightarrow>
           (\<exists>p \<in> set right.
              (\<forall>s \<in> set left. County_Sub_County p \<noteq> Some (st_Division s)) \<and> Q m p)
           \<and> NS m)"
  using assms(1)
proof (cases rule: outer_merge_cases)
  case (both s p)
  then have "\<exists>s \<in> set left. \<exists>p \<in> set right.
              County_Sub_County p = Some (st_Division s) \<and> P m s \<and> Q m p"
    unfolding key_match_def using cs cp by blast
  moreover have "merge_ind m = both" using both by (simp add: merge_ind_merged_of)
  ultimately show ?thesis by simp
next
  case (left_only s)
  then have "\<exists>s \<in> set left.
              (\<forall>p \<in> set right. County_Sub_County p \<noteq> Some (st_Division s)) \<and> P m s"
    unfolding key_match_def using cs by blast
  moreover have "merge_ind m = left_only" using left_only by (simp add: merge_ind_merged_of)
  moreover have "NP m" using left_only(3) by (simp add: np)
  ultimately show ?thesis by simp
next
  case (right_only p)
  then have "\<exists>p \<in> set right.
              (\<forall>s \<in> set left. County_Sub_County p \<noteq> Some (st_Division s)) \<and> Q m p"
    unfolding key_match_def using cp by blast
  moreover have "merge_ind m = right_only" using right_only by (simp add: merge_ind_merged_of)
  moreover have "NS m" using right_only(3) by (simp add: ns)
  ultimately show ?thesis by simp
qed

lemmas merge_eval_defs =
  merge_schools_population_def outer_merge_def groupby_agg_def add_normalized_def
  group_keys_def group_of_def agg_row_def agg_count_def merged_of_def
  merge_key_def key_match_def normalize_division_name_def name_mapping_def

section \<open>Auxiliary facts about the aggregate\<close>

lemma agg_count_all_present:
  "(\<And>r. r \<in> set g \<Longrightarrow> FID r \<noteq> None) \<Longrightarrow> agg_count (map FID g) = length g"
proof (induction g)
  case Nil
  then show ?case by (simp add: agg_count_def)
next
  case (Cons r g)
  then obtain i where "FID r = Some i" by fastforce
  with Cons show ?case by (simp add: agg_count_def)
qed

lemma group_of_add_normalized:
  "group_of (add_normalized df col) k
     = filter (\<lambda>r. map_option normalize_division_name (col r) = Some k) df"
  by (simp add: group_of_def add_normalized_def filter_map comp_def)


lemma groupby_agg_row:
  assumes "s \<in> set (groupby_agg sum_of mean_of (add_normalized df col))"
  shows "s = agg_row sum_of mean_of (st_Division s)
               (filter (\<lambda>r. map_option normalize_division_name (col r) = Some (st_Division s)) df)"
proof -
  from assms obtain k where "s = agg_row sum_of mean_of k (group_of (add_normalized df col) k)"
    by (auto simp: groupby_agg_def)
  moreover have "st_Division (agg_row sum_of mean_of k g) = k" for g by (simp add: agg_row_def)
  ultimately show ?thesis by (simp add: group_of_add_normalized)
qed

lemma divisions_of_groupby:
  "set (map st_Division (groupby_agg sum_of mean_of (add_normalized df col)))
     = {normalize_division_name d | d. Some d \<in> col ` set df}"
proof -
  have "Some k \<in> fst ` set (add_normalized df col)
          \<longleftrightarrow> (\<exists>d. k = normalize_division_name d \<and> Some d \<in> col ` set df)" for k
  proof
    assume "Some k \<in> fst ` set (add_normalized df col)"
    then obtain r where r: "r \<in> set df" "map_option normalize_division_name (col r) = Some k"
      unfolding add_normalized_def by force
    then obtain d where "col r = Some d" "k = normalize_division_name d"
      by (cases "col r") auto
    with r(1) show "\<exists>d. k = normalize_division_name d \<and> Some d \<in> col ` set df"
      by (metis imageI)
  next
    assume "\<exists>d. k = normalize_division_name d \<and> Some d \<in> col ` set df"
    then obtain d r where "k = normalize_division_name d" "r \<in> set df" "col r = Some d"
      by (metis imageE)
    then have "(Some k, r) \<in> set (add_normalized df col)"
      by (force simp: add_normalized_def)
    then show "Some k \<in> fst ` set (add_normalized df col)"
      by (metis fst_conv imageI)
  qed
  then show ?thesis
    by (simp add: map_st_Division_groupby set_group_keys)
qed

lemma sum_counts_add_normalized:
  "sum_list (map st_School_Count (groupby_agg sum_of mean_of (add_normalized df col)))
     = length (filter (\<lambda>r. col r \<noteq> None \<and> FID r \<noteq> None) df)"
  by (simp add: sum_counts add_normalized_def filter_map comp_def)

lemma County_merged_of:
  "County_Sub_County_m (merged_of l r t) = Option.bind r County_Sub_County"
  by (simp add: merged_of_def)

lemma length_filter_sort_key: "length (filter P (sort_key f xs)) = length (filter P xs)"
  by (simp add: filter_sort)

lemma matched_iff:
  "(\<exists>s \<in> set left. key_match s p) \<longleftrightarrow> County_Sub_County p \<in> Some ` set (map st_Division left)"
  by (auto simp: key_match_def)

lemma pairs_with_key:
  assumes "distinct (map st_Division left)"
  shows "sum_list (map (\<lambda>s. length (filter (\<lambda>p. key_match s p \<and> County_Sub_County p = Some k) right)) left)
           = length (filter (\<lambda>p. (\<exists>s \<in> set left. key_match s p) \<and> County_Sub_County p = Some k) right)"
proof -
  have "sum_list (map (\<lambda>s. length (filter (\<lambda>p. key_match s p \<and> County_Sub_County p = Some k) right)) left)
        = sum_list (map (\<lambda>d. length (filter (\<lambda>p. County_Sub_County p = Some d
              \<and> County_Sub_County p = Some k) right)) (map st_Division left))"
    by (simp add: comp_def key_match_def)
  also have "\<dots> = length (filter (\<lambda>p. County_Sub_County p \<in> Some ` set (map st_Division left)
              \<and> County_Sub_County p = Some k) right)"
    using assms by (rule sum_groups)
  also have "\<dots> = length (filter (\<lambda>p. (\<exists>s \<in> set left. key_match s p)
              \<and> County_Sub_County p = Some k) right)"
    by (rule arg_cong [where f = length], rule filter_cong [OF refl]) (auto simp: key_match_def)
  finally show ?thesis .
qed

lemma rows_per_key:
  assumes "distinct (map st_Division left)"
  shows "length (filter (\<lambda>m. County_Sub_County_m m = Some k) (outer_merge left right))
           = length (filter (\<lambda>p. County_Sub_County p = Some k) right)"
proof -
  let ?P = "\<lambda>m. County_Sub_County_m m = Some k"
  have B: "length (filter ?P (concat (map (\<lambda>s. map (\<lambda>p. merged_of (Some s) (Some p) both)
               (filter (key_match s) right)) left)))
        = length (filter (\<lambda>p. (\<exists>s \<in> set left. key_match s p) \<and> County_Sub_County p = Some k) right)"
    by (simp add: filter_concat length_concat comp_def filter_map County_merged_of
          pairs_with_key [OF assms])
  have L: "filter ?P (map (\<lambda>s. merged_of (Some s) None left_only)
               (filter (\<lambda>s. \<not> (\<exists>p \<in> set right. key_match s p)) left)) = []"
    by (simp add: filter_map comp_def County_merged_of)
  have R: "length (filter ?P (map (\<lambda>p. merged_of None (Some p) right_only)
               (filter (\<lambda>p. \<not> (\<exists>s \<in> set left. key_match s p)) right)))
        = length (filter (\<lambda>p. \<not> (\<exists>s \<in> set left. key_match s p) \<and> County_Sub_County p = Some k) right)"
    by (simp add: filter_map comp_def County_merged_of)
  have split: "length (filter (\<lambda>p. (\<exists>s \<in> set left. key_match s p) \<and> County_Sub_County p = Some k) right)
        + length (filter (\<lambda>p. \<not> (\<exists>s \<in> set left. key_match s p) \<and> County_Sub_County p = Some k) right)
        = length (filter (\<lambda>p. County_Sub_County p = Some k) right)"
  proof -
    have "length (filter (\<lambda>p. (\<exists>s \<in> set left. key_match s p) \<and> County_Sub_County p = Some k) right)
        + length (filter (\<lambda>p. \<not> (\<exists>s \<in> set left. key_match s p) \<and> County_Sub_County p = Some k) right)
        = length (filter (\<lambda>p. ((\<exists>s \<in> set left. key_match s p) \<and> County_Sub_County p = Some k)
             \<or> (\<not> (\<exists>s \<in> set left. key_match s p) \<and> County_Sub_County p = Some k)) right)"
      by (rule length_filter_disj) blast
    also have "\<dots> = length (filter (\<lambda>p. County_Sub_County p = Some k) right)"
      by (rule arg_cong [where f = length], rule filter_cong [OF refl]) blast
    finally show ?thesis .
  qed
  have "length (filter ?P (outer_merge left right))
          = length (filter (\<lambda>p. (\<exists>s \<in> set left. key_match s p) \<and> County_Sub_County p = Some k) right)
            + length (filter (\<lambda>p. \<not> (\<exists>s \<in> set left. key_match s p) \<and> County_Sub_County p = Some k) right)"
    unfolding outer_merge_def length_filter_sort_key filter_append length_append L B R by simp
  with split show ?thesis by simp
qed

lemma subcounties_fixed:
  "\<forall>s \<in> set get_nairobi_subcounties. normalize_division_name s = s"
  by (simp add: get_nairobi_subcounties_def normalize_division_name_def name_mapping_def)

section \<open>Auxiliary facts about the store\<close>

lemma isin_iff: "isin c vs \<longleftrightarrow> (\<exists>s \<in> set vs. c = Some s)"
  by (cases c) (auto simp: isin_def)

lemma frame_at_append: "a < length h \<Longrightarrow> frame_at (h @ fs) a = frame_at h a"
  by (simp add: frame_at_def nth_append)

lemma frame_at_Some_less: "frame_at h a = Some f \<Longrightarrow> a < length h"
  by (simp add: frame_at_def split: if_splits)

lemma df_copy_Some:
  assumes "df_copy h a = Some (h1, c)"
  obtains f where "frame_at h a = Some f" "h1 = h @ [f]" "c = length h"
  using assms by (auto simp: df_copy_def new_frame_def)

lemma set_normalized_Some:
  assumes "set_normalized h a = Some h2"
  obtains krows where "a < length h" "h2 = h[a := SchoolNormDF krows]"
  using assms
  by (auto simp: set_normalized_def split: option.splits frame.splits dest: frame_at_Some_less)

lemma subset_st_unchanged:
  "subset_by_province_st h df province = Some (h', a) \<Longrightarrow> take (length h) h' = h \<and> a = length h"
  "subset_by_level_st h df level = Some (h', a) \<Longrightarrow> take (length h) h' = h \<and> a = length h"
  "subset_by_subcounties_st h df subcounties = Some (h', a) \<Longrightarrow> take (length h) h' = h \<and> a = length h"
  by (auto simp: subset_by_province_st_def subset_by_level_st_def subset_by_subcounties_st_def
        new_frame_def split: option.splits frame.splits)

lemma merge_st_unchanged:
  assumes "merge_schools_population_st sum_of mean_of h school_df pop_df = Some (h', m)"
  shows "take (length h) h' = h"
proof -
  from assms obtain h1 c where copy: "df_copy h school_df = Some (h1, c)"
    by (auto simp: merge_schools_population_st_def split: option.splits)
  then obtain f where h1: "h1 = h @ [f]" and c: "c = length h"
    by (rule df_copy_Some)
  from assms copy obtain h2 where norm: "set_normalized h1 c = Some h2"
    by (auto simp: merge_schools_population_st_def split: option.splits)
  then obtain krows where h2: "h2 = h1[c := SchoolNormDF krows]"
    by (rule set_normalized_Some)
  from assms copy norm obtain fs where "h' = h2 @ fs"
    by (auto simp: merge_schools_population_st_def new_frame_def
          split: option.splits frame.splits prod.splits)
  with h1 h2 c show ?thesis by simp
qed

lemma merge_st_result:
  assumes "frame_at h school_df = Some (SchoolDF rows)" "frame_at h pop_df = Some (PopDF prows)"
  shows "merge_schools_population_st sum_of mean_of h school_df pop_df
           = Some (h @ [SchoolNormDF (add_normalized rows Division),
                        StatsDF (groupby_agg sum_of mean_of (add_normalized rows Division)),
                        MergedDF (merge_schools_population sum_of mean_of rows prows Division)],
                   length h + 2)"
proof -
  have copy: "df_copy h school_df = Some (h @ [SchoolDF rows], length h)"
    using assms(1) by (simp add: df_copy_def new_frame_def)
  have norm: "set_normalized (h @ [SchoolDF rows]) (length h)
                = Some (h @ [SchoolNormDF (add_normalized rows Division)])"
    by (simp add: set_normalized_def frame_at_def)
  have at_c: "frame_at (h @ [SchoolNormDF (add_normalized rows Division)]) (length h)
                = Some (SchoolNormDF (add_normalized rows Division))"
    by (simp add: frame_at_def)
  have pop_less: "pop_df < length h"
    using assms(2) by (rule frame_at_Some_less)
  let ?h3 = "h @ [SchoolNormDF (add_normalized rows Division)]
               @ [StatsDF (groupby_agg sum_of mean_of (add_normalized rows Division))]"
  have at_st: "frame_at ?h3 (Suc (length h)) = Some (StatsDF (groupby_agg sum_of mean_of (add_normalized rows Division)))"
    by (simp add: frame_at_def nth_append)
  have at_pop: "frame_at ?h3 pop_df = Some (PopDF prows)"
    using assms(2) pop_less by (simp add: frame_at_def nth_append)
  show ?thesis
    unfolding merge_schools_population_st_def copy
    using at_st at_pop
    by (simp add: norm at_c new_frame_def merge_schools_population_def)
qed

section \<open>Auxiliary facts about the metrics\<close>

lemma astype_float_Inr:
  "astype_float tf cs = Inr ys \<Longrightarrow>
   list_all2 (\<lambda>c y. \<exists>x. y = Num x \<and> (case c of Text s \<Rightarrow> tf s = Some x | Num v \<Rightarrow> x = v)) cs ys"
proof (induction tf cs arbitrary: ys rule: astype_float.induct)
  case (1 tf)
  then show ?case by simp
next
  case (2 tf x cs)
  then show ?case by (auto split: sum.splits)
next
  case (3 tf s cs)
  then show ?case by (auto split: option.splits sum.splits)
qed

lemma astype_float_total:
  "(\<And>s. Text s \<in> set cs \<Longrightarrow> tf s \<noteq> None) \<Longrightarrow> \<exists>ys. astype_float tf cs = Inr ys"
proof (induction tf cs rule: astype_float.induct)
  case (1 tf)
  then show ?case by simp
next
  case (2 tf x cs)
  then show ?case by (auto split: sum.splits)
next
  case (3 tf s cs)
  then show ?case by (fastforce split: option.splits sum.splits)
qed

lemma clean_numeric_Inr:
  assumes "clean_numeric tf b cs = Inr ys"
    and "\<And>c. c \<in> set cs \<Longrightarrow> is_Text c \<Longrightarrow> b"
  shows "list_all2 (\<lambda>c y. \<exists>x. y = Num x \<and> numeric_value tf b c x) cs ys"
proof (cases b)
  case True
  with assms(1) have "astype_float tf (map str_replace_comma cs) = Inr ys"
    by (simp add: clean_numeric_def split: if_splits)
  then have "list_all2 (\<lambda>c y. \<exists>x. y = Num x \<and> (case c of Text s \<Rightarrow> tf s = Some x | Num v \<Rightarrow> x = v))
               (map str_replace_comma cs) ys"
    by (rule astype_float_Inr)
  then have "list_all2 (\<lambda>c y. \<exists>x. y = Num x
                 \<and> (case str_replace_comma c of Text s \<Rightarrow> tf s = Some x | Num v \<Rightarrow> x = v)) cs ys"
    by (simp add: list_all2_map1)
  then show ?thesis
  proof (rule list_all2_mono)
    fix c y
    assume "\<exists>x. y = Num x \<and> (case str_replace_comma c of Text s \<Rightarrow> tf s = Some x | Num v \<Rightarrow> x = v)"
    then show "\<exists>x. y = Num x \<and> numeric_value tf b c x"
      using True by (cases c) (auto simp: str_replace_comma_def numeric_value_def)
  qed
next
  case False
  with assms(1) have ys: "ys = cs" by (simp add: clean_numeric_def)
  have "list_all2 (\<lambda>c y. \<exists>x. y = Num x \<and> numeric_value tf b c x) cs cs"
  proof (rule list_all2_same [THEN iffD2], rule ballI)
    fix c assume "c \<in> set cs"
    with assms(2) False have "\<not> is_Text c" by blast
    then show "\<exists>x. c = Num x \<and> numeric_value tf b c x"
      using False by (cases c) (auto simp: numeric_value_def)
  qed
  with ys show ?thesis by simp
qed

lemma clean_numeric_total:
  assumes "\<And>c. c \<in> set cs \<Longrightarrow> \<exists>s. c = Text s \<and> tf (filter (\<lambda>ch. ch \<noteq> CHR '','') s) \<noteq> None"
  shows "\<exists>ys. clean_numeric tf b cs = Inr ys"
proof (cases b)
  case False
  then show ?thesis by (simp add: clean_numeric_def)
next
  case True
  have ok: "str_accessor_ok cs"
  proof (cases cs)
    case Nil
    then show ?thesis by (simp add: str_accessor_ok_def)
  next
    case (Cons c cs')
    with assms [of c] have "is_Text c" by auto
    with Cons show ?thesis by (auto simp: str_accessor_ok_def)
  qed
  have "\<exists>ys. astype_float tf (map str_replace_comma cs) = Inr ys"
  proof (rule astype_float_total)
    fix s assume "Text s \<in> set (map str_replace_comma cs)"
    then obtain c where c: "c \<in> set cs" "str_replace_comma c = Text s" by auto
    with assms [of c] show "tf s \<noteq> None"
      by (auto simp: str_replace_comma_def)
  qed
  with True ok show ?thesis by (simp add: clean_numeric_def)
qed

lemma dtype_object_member: "c \<in> set (map col (filter P df)) \<Longrightarrow> is_Text c \<Longrightarrow> dtype_object (map col df)"
  by (auto simp: dtype_object_def)

lemma with_rate_sel:
  "Total_star_m (with_rate m t a la lb n) = t"
  "Left_After_Completion_m (with_rate m t a la lb n) = la"
  "Completed_Rate (with_rate m t a la lb n) = fmul (fdiv (the_num la) (the_num t)) (Fin 100)"
  "School_Count (with_rate m t a la lb n) = School_Count m"
  "Total_Enrollment (with_rate m t a la lb n) = Total_Enrollment m"
  "Division_m (with_rate m t a la lb n) = Division_m m"
  by (simp_all add: with_rate_def merged_row.defs metrics_row.defs)

lemma with_per_capita_sel:
  "Total_Pop (with_per_capita m t la) = the_num t"
  "Schools_per_10k (with_per_capita m t la)
     = fmul (fdiv (count_float (School_Count m)) (the_num t)) (Fin 10000)"
  "Students_per_School (with_per_capita m t la)
     = fdiv (Total_Enrollment m) (count_float (School_Count m))"
  "Completed_Rate (with_per_capita m t la) = fmul (fdiv (the_num la) (the_num t)) (Fin 100)"
  by (simp_all add: with_per_capita_def metrics_row.defs per_capita_row.defs)

lemma calculate_completion_metrics_Inr:
  assumes "calculate_completion_metrics tf merged_df = Inr df"
  obtains tot ats laf lbf nev where
    "clean_numeric tf (dtype_object (map Total_star_m merged_df))
       (map Total_star_m (filter (\<lambda>m. merge_ind m = both) merged_df)) = Inr tot"
    "clean_numeric tf (dtype_object (map At_School_m merged_df))
       (map At_School_m (filter (\<lambda>m. merge_ind m = both) merged_df)) = Inr ats"
    "clean_numeric tf (dtype_object (map Left_After_Completion_m merged_df))
       (map Left_After_Completion_m (filter (\<lambda>m. merge_ind m = both) merged_df)) = Inr laf"
    "clean_numeric tf (dtype_object (map Left_Before_Completion_m merged_df))
       (map Left_Before_Completion_m (filter (\<lambda>m. merge_ind m = both) merged_df)) = Inr lbf"
    "clean_numeric tf (dtype_object (map Never_Been_m merged_df))
       (map Never_Been_m (filter (\<lambda>m. merge_ind m = both) merged_df)) = Inr nev"
    "df = map (\<lambda>(m, t, a, la, lb, n). with_rate m t a la lb n)
            (zip (filter (\<lambda>m. merge_ind m = both) merged_df)
               (zip tot (zip ats (zip laf (zip lbf nev)))))"
  using assms unfolding calculate_completion_metrics_def Let_def
  by (auto split: sum.splits)

lemma cleaned_column:
  assumes "clean_numeric tf (dtype_object (map col merged_df)) (map col (filter P merged_df)) = Inr ys"
  shows "length ys = length (filter P merged_df)"
    and "i < length (filter P merged_df) \<Longrightarrow>
         \<exists>x. ys ! i = Num x
           \<and> numeric_value tf (dtype_object (map col merged_df)) (col (filter P merged_df ! i)) x"
proof -
  have all: "list_all2 (\<lambda>c y. \<exists>x. y = Num x \<and> numeric_value tf (dtype_object (map col merged_df)) c x)
          (map col (filter P merged_df)) ys"
    using assms by (rule clean_numeric_Inr) (rule dtype_object_member)
  then show len: "length ys = length (filter P merged_df)"
    by (simp add: list_all2_conv_all_nth)
  assume "i < length (filter P merged_df)"
  with all show "\<exists>x. ys ! i = Num x
           \<and> numeric_value tf (dtype_object (map col merged_df)) (col (filter P merged_df ! i)) x"
    by (simp add: list_all2_conv_all_nth)
qed

lemma metrics_rows:
  assumes "calculate_completion_metrics tf merged_df = Inr df"
  shows "length df = length (filter (\<lambda>m. merge_ind m = both) merged_df)"
    and "i < length df \<Longrightarrow>
         \<exists>t la.
           numeric_value tf (dtype_object (map Total_star_m merged_df))
             (Total_star_m (filter (\<lambda>m. merge_ind m = both) merged_df ! i)) t
         \<and> numeric_value tf (dtype_object (map Left_After_Completion_m merged_df))
             (Left_After_Completion_m (filter (\<lambda>m. merge_ind m = both) merged_df ! i)) la
         \<and> Total_star_m (df ! i) = Num t \<and> Left_After_Completion_m (df ! i) = Num la
         \<and> School_Count (df ! i) = School_Count (filter (\<lambda>m. merge_ind m = both) merged_df ! i)
         \<and> Total_Enrollment (df ! i)
             = Total_Enrollment (filter (\<lambda>m. merge_ind m = both) merged_df ! i)
         \<and> Completed_Rate (df ! i) = fmul (fdiv la t) (Fin 100)"
proof -
  let ?fdf = "filter (\<lambda>m. merge_ind m = both) merged_df"
  from assms obtain tot ats laf lbf nev where
    tot: "clean_numeric tf (dtype_object (map Total_star_m merged_df)) (map Total_star_m ?fdf) = Inr tot"
    and ats: "clean_numeric tf (dtype_object (map At_School_m merged_df)) (map At_School_m ?fdf) = Inr ats"
    and laf: "clean_numeric tf (dtype_object (map Left_After_Completion_m merged_df))
       (map Left_After_Completion_m ?fdf) = Inr laf"
    and lbf: "clean_numeric tf (dtype_object (map Left_Before_Completion_m merged_df))
       (map Left_Before_Completion_m ?fdf) = Inr lbf"
    and nev: "clean_numeric tf (dtype_object (map Never_Been_m merged_df)) (map Never_Been_m ?fdf) = Inr nev"
    and df: "df = map (\<lambda>(m, t, a, la, lb, n). with_rate m t a la lb n)
            (zip ?fdf (zip tot (zip ats (zip laf (zip lbf nev)))))"
    by (rule calculate_completion_metrics_Inr)
  note lens = cleaned_column(1) [OF tot] cleaned_column(1) [OF ats] cleaned_column(1) [OF laf]
    cleaned_column(1) [OF lbf] cleaned_column(1) [OF nev]
  show len: "length df = length ?fdf"
    by (simp add: df lens)
  assume i: "i < length df"
  with len have i': "i < length ?fdf" by simp
  have row: "df ! i = with_rate (?fdf ! i) (tot ! i) (ats ! i) (laf ! i) (lbf ! i) (nev ! i)"
    using i' by (simp add: df lens)
  from cleaned_column(2) [OF tot i'] obtain t where
    t: "tot ! i = Num t"
      "numeric_value tf (dtype_object (map Total_star_m merged_df)) (Total_star_m (?fdf ! i)) t"
    by blast
  from cleaned_column(2) [OF laf i'] obtain la where
    la: "laf ! i = Num la"
      "numeric_value tf (dtype_object (map Left_After_Completion_m merged_df))
         (Left_After_Completion_m (?fdf ! i)) la"
    by blast
  show "\<exists>t la.
           numeric_value tf (dtype_object (map Total_star_m merged_df)) (Total_star_m (?fdf ! i)) t
         \<and> numeric_value tf (dtype_object (map Left_After_Completion_m merged_df))
             (Left_After_Completion_m (?fdf ! i)) la
         \<and> Total_star_m (df ! i) = Num t \<and> Left_After_Completion_m (df ! i) = Num la
         \<and> School_Count (df ! i) = School_Count (?fdf ! i)
         \<and> Total_Enrollment (df ! i) = Total_Enrollment (?fdf ! i)
         \<and> Completed_Rate (df ! i) = fmul (fdiv la t) (Fin 100)"
    by (rule exI [of _ t], rule exI [of _ la]) (simp add: row with_rate_sel t la)
qed

lemma map_zip3_same:
  "map (\<lambda>(m, t, la). h m t la) (zip xs (zip (map f xs) (map g xs))) = map (\<lambda>m. h m (f m) (g m)) xs"
  by (induction xs) simp_all

lemma not_object_if_all_Num:
  assumes "\<And>i. i < length df \<Longrightarrow> \<exists>x. col (df ! i) = Num x"
  shows "\<not> dtype_object (map col df)"
proof
  assume "dtype_object (map col df)"
  then obtain m where "m \<in> set df" "is_Text (col m)"
    by (auto simp: dtype_object_def)
  then obtain i where "i < length df" "is_Text (col (df ! i))"
    by (auto simp: in_set_conv_nth)
  with assms [of i] show False by auto
qed

lemma per_capita_after_metrics:
  assumes "calculate_completion_metrics tf merged_df = Inr df"
  shows "create_schools_per_capita_charts tf df
           = Inr (map (\<lambda>m. with_per_capita m (Total_star_m m) (Left_After_Completion_m m)) df)"
proof -
  have "\<not> dtype_object (map Total_star_m df)"
    by (rule not_object_if_all_Num) (use metrics_rows(2) [OF assms] in blast)
  moreover have "\<not> dtype_object (map Left_After_Completion_m df)"
    by (rule not_object_if_all_Num) (use metrics_rows(2) [OF assms] in blast)
  ultimately show ?thesis
    by (simp add: create_schools_per_capita_charts_def clean_numeric_def map_zip3_same)
qed

lemma per_capita_rows:
  assumes "calculate_completion_metrics tf merged_df = Inr df"
  shows "\<exists>pc. create_schools_per_capita_charts tf df = Inr pc \<and> length pc = length df
          \<and> (\<forall>i < length df.
                Total_Pop (pc ! i) = the_num (Total_star_m (df ! i))
              \<and> Schools_per_10k (pc ! i)
                  = fmul (fdiv (count_float (School_Count (df ! i))) (the_num (Total_star_m (df ! i))))
                      (Fin 10000)
              \<and> Students_per_School (pc ! i)
                  = fdiv (Total_Enrollment (df ! i)) (count_float (School_Count (df ! i)))
              \<and> Completed_Rate (pc ! i)
                  = fmul (fdiv (the_num (Left_After_Completion_m (df ! i)))
                      (the_num (Total_star_m (df ! i)))) (Fin 100))"
  by (rule exI [of _ "map (\<lambda>m. with_per_capita m (Total_star_m m) (Left_After_Completion_m m)) df"])
     (simp add: per_capita_after_metrics [OF assms] with_per_capita_sel)

lemma text_parses_iff:
  "text_parses tf c \<longleftrightarrow> (\<exists>s. c = Text s \<and> tf (filter (\<lambda>ch. ch \<noteq> CHR '','') s) \<noteq> None)"
  by (cases c) (simp_all add: text_parses_def)

lemma clean_column_total:
  assumes "\<And>m. m \<in> set merged_df \<Longrightarrow> merge_ind m = both \<Longrightarrow> text_parses tf (col m)"
  shows "\<exists>ys. clean_numeric tf b (map col (filter (\<lambda>m. merge_ind m = both) merged_df)) = Inr ys"
proof (rule clean_numeric_total)
  fix c assume "c \<in> set (map col (filter (\<lambda>m. merge_ind m = both) merged_df))"
  then obtain m where "m \<in> set merged_df" "merge_ind m = both" "c = col m" by auto
  with assms [of m] show "\<exists>s. c = Text s \<and> tf (filter (\<lambda>ch. ch \<noteq> CHR '','') s) \<noteq> None"
    by (simp add: text_parses_iff)
qed

lemma metrics_total:
  assumes "\<And>m. m \<in> set merged_df \<Longrightarrow> merge_ind m = both \<Longrightarrow>
             text_parses tf (Total_star_m m) \<and> text_parses tf (At_School_m m)
           \<and> text_parses tf (Left_After_Completion_m m)
           \<and> text_parses tf (Left_Before_Completion_m m) \<and> text_parses tf (Never_Been_m m)"
  shows "\<exists>df. calculate_completion_metrics tf merged_df = Inr df"
proof -
  obtain tot where tot: "clean_numeric tf (dtype_object (map Total_star_m merged_df))
       (map Total_star_m (filter (\<lambda>m. merge_ind m = both) merged_df)) = Inr tot"
    using clean_column_total [of merged_df tf Total_star_m] assms by blast
  obtain ats where ats: "clean_numeric tf (dtype_object (map At_School_m merged_df))
       (map At_School_m (filter (\<lambda>m. merge_ind m = both) merged_df)) = Inr ats"
    using clean_column_total [of merged_df tf At_School_m] assms by blast
  obtain laf where laf: "clean_numeric tf (dtype_object (map Left_After_Completion_m merged_df))
       (map Left_After_Completion_m (filter (\<lambda>m. merge_ind m = both) merged_df)) = Inr laf"
    using clean_column_total [of merged_df tf Left_After_Completion_m] assms by blast
  obtain lbf where lbf: "clean_numeric tf (dtype_object (map Left_Before_Completion_m merged_df))
       (map Left_Before_Completion_m (filter (\<lambda>m. merge_ind m = both) merged_df)) = Inr lbf"
    using clean_column_total [of merged_df tf Left_Before_Completion_m] assms by blast
  obtain nev where nev: "clean_numeric tf (dtype_object (map Never_Been_m merged_df))
       (map Never_Been_m (filter (\<lambda>m. merge_ind m = both) merged_df)) = Inr nev"
    using clean_column_total [of merged_df tf Never_Been_m] assms by blast
  show ?thesis
    unfolding calculate_completion_metrics_def Let_def
    by (simp add: tot ats laf lbf nev)
qed

lemma fdiv_zero: "fdiv x (Fin 0) \<in> {PInf, NInf, NaN}"
  by (cases x) simp_all

lemma fmul_not_finite: "y \<in> {PInf, NInf, NaN} \<Longrightarrow> fmul y (Fin c) \<in> {PInf, NInf, NaN}"
  by (cases y) auto

lemmas metrics_eval_defs =
  calculate_completion_metrics_def clean_numeric_def dtype_object_def str_accessor_ok_def
  str_replace_comma_def example_to_float_def numeric_value_def

section \<open>Auxiliary facts about keys\<close>

lemma subset_rows_per_key:
  "length (filter (\<lambda>p. County_Sub_County p = Some k)
           (subset_by_subcounties pop_df names County_Sub_County))
     = (if k \<in> set names then length (filter (\<lambda>p. County_Sub_County p = Some k) pop_df) else 0)"
proof (cases "k \<in> set names")
  case True
  have "filter (\<lambda>p. isin (County_Sub_County p) names \<and> County_Sub_County p = Some k) pop_df
          = filter (\<lambda>p. County_Sub_County p = Some k) pop_df"
    by (rule filter_cong [OF refl]) (use True in \<open>auto simp: isin_def\<close>)
  with True show ?thesis
    by (simp add: subset_by_subcounties_def conj_commute)
next
  case False
  have "filter (\<lambda>p. isin (County_Sub_County p) names \<and> County_Sub_County p = Some k) pop_df = []"
    unfolding filter_empty_conv using False by (auto simp: isin_def)
  with False show ?thesis
    by (simp add: subset_by_subcounties_def conj_commute)
qed

lemma merged_rows_per_key:
  "length (filter (\<lambda>m. County_Sub_County_m m = Some k)
           (merge_schools_population sum_of mean_of school_df
              (subset_by_subcounties pop_df names County_Sub_County) col))
     = (if k \<in> set names then length (filter (\<lambda>p. County_Sub_County p = Some k) pop_df) else 0)"
  unfolding merge_schools_population_def
  by (simp only: rows_per_key [OF distinct_divisions_groupby] subset_rows_per_key)

lemma merged_rows_per_key_le:
  assumes "\<forall>k \<in> set names. length (filter (\<lambda>p. County_Sub_County p = Some k) pop_df) \<le> 1"
  shows "length (filter (\<lambda>m. County_Sub_County_m m = Some k)
           (merge_schools_population sum_of mean_of school_df
              (subset_by_subcounties pop_df names County_Sub_County) col)) \<le> 1"
  using assms by (simp add: merged_rows_per_key)

section \<open>Further facts about the metrics\<close>

lemma with_rate_sel_more:
  "At_School_m (with_rate m t a la lb n) = a"
  "Left_Before_Completion_m (with_rate m t a la lb n) = lb"
  "Never_Been_m (with_rate m t a la lb n) = n"
  by (simp_all add: with_rate_def merged_row.defs metrics_row.defs)

lemma metrics_rows_other:
  assumes "calculate_completion_metrics tf merged_df = Inr df" and i: "i < length df"
  shows "\<exists>a lb n.
           numeric_value tf (dtype_object (map At_School_m merged_df))
             (At_School_m (filter (\<lambda>m. merge_ind m = both) merged_df ! i)) a
         \<and> numeric_value tf (dtype_object (map Left_Before_Completion_m merged_df))
             (Left_Before_Completion_m (filter (\<lambda>m. merge_ind m = both) merged_df ! i)) lb
         \<and> numeric_value tf (dtype_object (map Never_Been_m merged_df))
             (Never_Been_m (filter (\<lambda>m. merge_ind m = both) merged_df ! i)) n
         \<and> At_School_m (df ! i) = Num a \<and> Left_Before_Completion_m (df ! i) = Num lb
         \<and> Never_Been_m (df ! i) = Num n
         \<and> Division_m (df ! i) = Division_m (filter (\<lambda>m. merge_ind m = both) merged_df ! i)"
proof -
  let ?fdf = "filter (\<lambda>m. merge_ind m = both) merged_df"
  from assms(1) obtain tot ats laf lbf nev where
    tot: "clean_numeric tf (dtype_object (map Total_star_m merged_df)) (map Total_star_m ?fdf) = Inr tot"
    and ats: "clean_numeric tf (dtype_object (map At_School_m merged_df)) (map At_School_m ?fdf) = Inr ats"
    and laf: "clean_numeric tf (dtype_object (map Left_After_Completion_m merged_df))
       (map Left_After_Completion_m ?fdf) = Inr laf"
    and lbf: "clean_numeric tf (dtype_object (map Left_Before_Completion_m merged_df))
       (map Left_Before_Completion_m ?fdf) = Inr lbf"
    and nev: "clean_numeric tf (dtype_object (map Never_Been_m merged_df)) (map Never_Been_m ?fdf) = Inr nev"
    and df: "df = map (\<lambda>(m, t, a, la, lb, n). with_rate m t a la lb n)
            (zip ?fdf (zip tot (zip ats (zip laf (zip lbf nev)))))"
    by (rule calculate_completion_metrics_Inr)
  note lens = cleaned_column(1) [OF tot] cleaned_column(1) [OF ats] cleaned_column(1) [OF laf]
    cleaned_column(1) [OF lbf] cleaned_column(1) [OF nev]
  from i have i': "i < length ?fdf" by (simp add: df lens)
  have row: "df ! i = with_rate (?fdf ! i) (tot ! i) (ats ! i) (laf ! i) (lbf ! i) (nev ! i)"
    using i' by (simp add: df lens)
  from cleaned_column(2) [OF ats i'] obtain a where
    a: "ats ! i = Num a"
      "numeric_value tf (dtype_object (map At_School_m merged_df)) (At_School_m (?fdf ! i)) a"
    by blast
  from cleaned_column(2) [OF lbf i'] obtain lb where
    lb: "lbf ! i = Num lb"
      "numeric_value tf (dtype_object (map Left_Before_Completion_m merged_df))
         (Left_Before_Completion_m (?fdf ! i)) lb"
    by blast
  from cleaned_column(2) [OF nev i'] obtain n where
    n: "nev ! i = Num n"
      "numeric_value tf (dtype_object (map Never_Been_m merged_df)) (Never_Been_m (?fdf ! i)) n"
    by blast
  show ?thesis
    by (rule exI [of _ a], rule exI [of _ lb], rule exI [of _ n])
       (simp add: row with_rate_sel with_rate_sel_more a lb n)
qed

section \<open>The merge on the example of the specification\<close>

text \<open>
  C1. Five school rows of division KIBERA and three of division WESTLANDS (whatever
  their other columns, the identifier present), merged with a population row KIBRA of
  population 10000 and a population row WESTLANDS of population 8000: the merged frame
  is the row KIBRA with school count 5 and the row WESTLANDS with school count 3, both
  tagged \<open>both\<close>.
\<close>

theorem merge_example:
  "map (\<lambda>m. (Division_m m, School_Count m, County_Sub_County_m m, Total_star_m m, merge_ind m))
     (merge_schools_population sum_of mean_of
        [ka\<lparr>Division := Some ''KIBERA'', FID := Some ia\<rparr>,
         kb\<lparr>Division := Some ''KIBERA'', FID := Some ib\<rparr>,
         kc\<lparr>Division := Some ''KIBERA'', FID := Some ic\<rparr>,
         kd\<lparr>Division := Some ''KIBERA'', FID := Some idd\<rparr>,
         ke\<lparr>Division := Some ''KIBERA'', FID := Some ie\<rparr>,
         wa\<lparr>Division := Some ''WESTLANDS'', FID := Some ja\<rparr>,
         wb\<lparr>Division := Some ''WESTLANDS'', FID := Some jb\<rparr>,
         wc\<lparr>Division := Some ''WESTLANDS'', FID := Some jc\<rparr>]
        [pa\<lparr>County_Sub_County := Some ''KIBRA'', Total_star := Num (Fin 10000)\<rparr>,
         pb\<lparr>County_Sub_County := Some ''WESTLANDS'', Total_star := Num (Fin 8000)\<rparr>]
        Division)
   = [(Some ''KIBRA'', Some 5, Some ''KIBRA'', Num (Fin 10000), both),
      (Some ''WESTLANDS'', Some 3, Some ''WESTLANDS'', Num (Fin 8000), both)]"
  by (simp add: merge_eval_defs)

theorem merge_example_witness:
  "map (\<lambda>m. (Division_m m, School_Count m, County_Sub_County_m m, Total_star_m m, merge_ind m))
     (merge_schools_population example_sum example_mean
        [example_school (Some ''KIBERA''), example_school (Some ''KIBERA''),
         example_school (Some ''KIBERA''), example_school (Some ''KIBERA''),
         example_school (Some ''KIBERA''), example_school (Some ''WESTLANDS''),
         example_school (Some ''WESTLANDS''), example_school (Some ''WESTLANDS'')]
        [example_pop (Some ''KIBRA'') (Num (Fin 10000)) (Num (Fin 4000)),
         example_pop (Some ''WESTLANDS'') (Num (Fin 8000)) (Num (Fin 5000))]
        Division)
   = [(Some ''KIBRA'', Some 5, Some ''KIBRA'', Num (Fin 10000), both),
      (Some ''WESTLANDS'', Some 3, Some ''WESTLANDS'', Num (Fin 8000), both)]"
proof -
  have s: "(example_school (Some d))\<lparr>Division := Some d, FID := Some 1\<rparr> = example_school (Some d)"
    for d
    by (simp add: example_school_def)
  have p: "(example_pop (Some c) (Num (Fin t)) x)\<lparr>County_Sub_County := Some c, Total_star := Num (Fin t)\<rparr>
             = example_pop (Some c) (Num (Fin t)) x"
    for c t x
    by (simp add: example_pop_def)
  show ?thesis
    using merge_example [where sum_of = example_sum and mean_of = example_mean
        and ka = "example_school (Some ''KIBERA'')" and ia = 1
        and kb = "example_school (Some ''KIBERA'')" and ib = 1
        and kc = "example_school (Some ''KIBERA'')" and ic = 1
        and kd = "example_school (Some ''KIBERA'')" and idd = 1
        and ke = "example_school (Some ''KIBERA'')" and ie = 1
        and wa = "example_school (Some ''WESTLANDS'')" and ja = 1
        and wb = "example_school (Some ''WESTLANDS'')" and jb = 1
        and wc = "example_school (Some ''WESTLANDS'')" and jc = 1
        and pa = "example_pop (Some ''KIBRA'') (Num (Fin 10000)) (Num (Fin 4000))"
        and pb = "example_pop (Some ''WESTLANDS'') (Num (Fin 8000)) (Num (Fin 5000))"]
    unfolding s p .
qed

section \<open>The merge is a full outer join\<close>

text \<open>
  C2. Every row of the aggregate and every row of the population frame appears in the
  merged frame: some merged row has its columns, value for value. A row tagged \<open>both\<close>
  has the columns of an aggregate row and of a population row with the same key; a row
  tagged \<open>left_only\<close> has the columns of an aggregate row no population row matches, and
  its population columns are null; a row tagged \<open>right_only\<close> has the columns of a
  population row no aggregate row matches, and its school columns are null.
\<close>

theorem merge_full_outer_join:
  "(\<forall>s \<in> set (groupby_agg sum_of mean_of (add_normalized school_df col)).
      \<exists>m \<in> set (merge_schools_population sum_of mean_of school_df pop_df col).
        carries_stat m s \<and> merge_ind m \<noteq> right_only)
   \<and> (\<forall>p \<in> set pop_df.
      \<exists>m \<in> set (merge_schools_population sum_of mean_of school_df pop_df col).
        carries_pop m p \<and> merge_ind m \<noteq> left_only)
   \<and> (\<forall>m \<in> set (merge_schools_population sum_of mean_of school_df pop_df col).
        (merge_ind m = both \<longrightarrow>
           (\<exists>s \<in> set (groupby_agg sum_of mean_of (add_normalized school_df col)).
            \<exists>p \<in> set pop_df.
              County_Sub_County p = Some (st_Division s) \<and> carries_stat m s \<and> carries_pop m p))
      \<and> (merge_ind m = left_only \<longrightarrow>
           (\<exists>s \<in> set (groupby_agg sum_of mean_of (add_normalized school_df col)).
              (\<forall>p \<in> set pop_df. County_Sub_County p \<noteq> Some (st_Division s))
              \<and> carries_stat m s)
           \<and> population_columns_null m)
      \<and> (merge_ind m = right_only \<longrightarrow>
           (\<exists>p \<in> set pop_df.
              (\<forall>s \<in> set (groupby_agg sum_of mean_of (add_normalized school_df col)).
                 County_Sub_County p \<noteq> Some (st_Division s))
              \<and> carries_pop m p)
           \<and> school_columns_null m))"
proof -
  have cs: "carries_stat (merged_of (Some s) r t) s" for s r t
    by (simp add: carries_stat_def merged_of_def)
  have cp: "carries_pop (merged_of l (Some p) t) p" for l p t
    by (simp add: carries_pop_def merged_of_def)
  have np: "population_columns_null (merged_of l None t)" for l t
    by (simp add: population_columns_null_def merged_of_def)
  have ns: "school_columns_null (merged_of None r t)" for r t
    by (simp add: school_columns_null_def merged_of_def)
  let ?stats = "groupby_agg sum_of mean_of (add_normalized school_df col)"
  have left: "\<forall>s \<in> set ?stats. \<exists>m \<in> set (outer_merge ?stats pop_df).
      carries_stat m s \<and> merge_ind m \<noteq> right_only"
  proof
    fix s assume "s \<in> set ?stats"
    then show "\<exists>m \<in> set (outer_merge ?stats pop_df). carries_stat m s \<and> merge_ind m \<noteq> right_only"
      by (rule left_row_appears [where P = "\<lambda>m. carries_stat m s"]) (rule cs)
  qed
  have right: "\<forall>p \<in> set pop_df. \<exists>m \<in> set (outer_merge ?stats pop_df).
      carries_pop m p \<and> merge_ind m \<noteq> left_only"
  proof
    fix p assume "p \<in> set pop_df"
    then show "\<exists>m \<in> set (outer_merge ?stats pop_df). carries_pop m p \<and> merge_ind m \<noteq> left_only"
      by (rule right_row_appears [where Q = "\<lambda>m. carries_pop m p"]) (rule cp)
  qed
  have rows: "\<forall>m \<in> set (outer_merge ?stats pop_df).
        (merge_ind m = both \<longrightarrow>
           (\<exists>s \<in> set ?stats. \<exists>p \<in> set pop_df.
              County_Sub_County p = Some (st_Division s) \<and> carries_stat m s \<and> carries_pop m p))
      \<and> (merge_ind m = left_only \<longrightarrow>
           (\<exists>s \<in> set ?stats.
              (\<forall>p \<in> set pop_df. County_Sub_County p \<noteq> Some (st_Division s))
              \<and> carries_stat m s)
           \<and> population_columns_null m)
      \<and> (merge_ind m = right_only \<longrightarrow>
           (\<exists>p \<in> set pop_df.
              (\<forall>s \<in> set ?stats. County_Sub_County p \<noteq> Some (st_Division s))
              \<and> carries_pop m p)
           \<and> school_columns_null m)"
  proof
    fix m assume "m \<in> set (outer_merge ?stats pop_df)"
    then show "(merge_ind m = both \<longrightarrow>
           (\<exists>s \<in> set ?stats. \<exists>p \<in> set pop_df.
              County_Sub_County p = Some (st_Division s) \<and> carries_stat m s \<and> carries_pop m p))
      \<and> (merge_ind m = left_only \<longrightarrow>
           (\<exists>s \<in> set ?stats.
              (\<forall>p \<in> set pop_df. County_Sub_County p \<noteq> Some (st_Division s))
              \<and> carries_stat m s)
           \<and> population_columns_null m)
      \<and> (merge_ind m = right_only \<longrightarrow>
           (\<exists>p \<in> set pop_df.
              (\<forall>s \<in> set ?stats. County_Sub_County p \<noteq> Some (st_Division s))
              \<and> carries_pop m p)
           \<and> school_columns_null m)"
      by (rule outer_merge_row [where P = carries_stat and Q = carries_pop
            and NP = population_columns_null and NS = school_columns_null])
         (rule cs cp np ns)+
  qed
  from left right rows show ?thesis
    unfolding merge_schools_population_def by (intro conjI)
qed

theorem merge_full_outer_join_witness:
  "(\<exists>m \<in> set (merge_schools_population example_sum example_mean
                 [example_school (Some ''KIBERA''), example_school (Some ''DAGORETTI'')]
                 [example_pop (Some ''KIBRA'') (Text ''10,000'') (Text ''4,000''),
                  example_pop (Some ''WESTLANDS'') (Text ''8,000'') (Text ''5,000'')] Division).
      Division_m m = Some ''KIBRA'' \<and> School_Count m = Some 1 \<and> Total_Enrollment m = Fin 400
      \<and> Total_Boys m = Fin 210 \<and> Total_Girls m = Fin 190 \<and> Total_Classrooms m = Fin 8
      \<and> Total_Teachers m = Fin 10 \<and> Latitude_m m = Fin (- 1) \<and> Longitude_m m = Fin 36
      \<and> merge_ind m \<noteq> right_only)
   \<and> (\<exists>m \<in> set (merge_schools_population example_sum example_mean
                 [example_school (Some ''KIBERA''), example_school (Some ''DAGORETTI'')]
                 [example_pop (Some ''KIBRA'') (Text ''10,000'') (Text ''4,000''),
                  example_pop (Some ''WESTLANDS'') (Text ''8,000'') (Text ''5,000'')] Division).
      County_Sub_County_m m = Some ''WESTLANDS'' \<and> Total_star_m m = Text ''8,000''
      \<and> At_School_m m = Num NaN \<and> Left_After_Completion_m m = Text ''5,000''
      \<and> Left_Before_Completion_m m = Num NaN \<and> Never_Been_m m = Num NaN
      \<and> merge_ind m \<noteq> left_only)
   \<and> map (\<lambda>m. (Division_m m, School_Count m, Total_Enrollment m, Latitude_m m,
                 County_Sub_County_m m, Total_star_m m, merge_ind m))
        (merge_schools_population example_sum example_mean
           [example_school (Some ''KIBERA''), example_school (Some ''DAGORETTI'')]
           [example_pop (Some ''KIBRA'') (Text ''10,000'') (Text ''4,000''),
            example_pop (Some ''WESTLANDS'') (Text ''8,000'') (Text ''5,000'')] Division)
      = [(Some ''DAGORETTI'', Some 1, Fin 400, Fin (- 1), None, Num NaN, left_only),
         (Some ''KIBRA'', Some 1, Fin 400, Fin (- 1), Some ''KIBRA'', Text ''10,000'', both),
         (None, None, NaN, NaN, Some ''WESTLANDS'', Text ''8,000'', right_only)]"
proof -
  let ?sdf = "[example_school (Some ''KIBERA''), example_school (Some ''DAGORETTI'')]"
  let ?pdf = "[example_pop (Some ''KIBRA'') (Text ''10,000'') (Text ''4,000''),
               example_pop (Some ''WESTLANDS'') (Text ''8,000'') (Text ''5,000'')]"
  let ?s = "\<lparr> st_Division = ''KIBRA'', st_School_Count = 1, st_Total_Enrollment = Fin 400,
             st_Total_Boys = Fin 210, st_Total_Girls = Fin 190, st_Total_Classrooms = Fin 8,
             st_Total_Teachers = Fin 10, st_Latitude = Fin (- 1), st_Longitude = Fin 36 \<rparr>"
  let ?p = "example_pop (Some ''WESTLANDS'') (Text ''8,000'') (Text ''5,000'')"
  note inst = merge_full_outer_join [where sum_of = example_sum and mean_of = example_mean
      and school_df = ?sdf and pop_df = ?pdf and col = Division]
  have "?s \<in> set (groupby_agg example_sum example_mean (add_normalized ?sdf Division))"
    by (simp add: groupby_agg_def add_normalized_def group_keys_def group_of_def agg_row_def
          agg_count_def normalize_division_name_def name_mapping_def example_school_def
          example_sum_def example_mean_def)
  with inst obtain m where
    m: "m \<in> set (merge_schools_population example_sum example_mean ?sdf ?pdf Division)"
      "carries_stat m ?s" "merge_ind m \<noteq> right_only"
    by blast
  have "?p \<in> set ?pdf" by simp
  with inst obtain m' where
    m': "m' \<in> set (merge_schools_population example_sum example_mean ?sdf ?pdf Division)"
      "carries_pop m' ?p" "merge_ind m' \<noteq> left_only"
    by blast
  have direct: "map (\<lambda>m. (Division_m m, School_Count m, Total_Enrollment m, Latitude_m m,
                          County_Sub_County_m m, Total_star_m m, merge_ind m))
                  (merge_schools_population example_sum example_mean ?sdf ?pdf Division)
      = [(Some ''DAGORETTI'', Some 1, Fin 400, Fin (- 1), None, Num NaN, left_only),
         (Some ''KIBRA'', Some 1, Fin 400, Fin (- 1), Some ''KIBRA'', Text ''10,000'', both),
         (None, None, NaN, NaN, Some ''WESTLANDS'', Text ''8,000'', right_only)]"
    by (simp add: merge_eval_defs example_school_def example_pop_def example_sum_def
          example_mean_def)
  from m(2) have "Division_m m = Some ''KIBRA'' \<and> School_Count m = Some 1
      \<and> Total_Enrollment m = Fin 400
      \<and> Total_Boys m = Fin 210 \<and> Total_Girls m = Fin 190 \<and> Total_Classrooms m = Fin 8
      \<and> Total_Teachers m = Fin 10 \<and> Latitude_m m = Fin (- 1) \<and> Longitude_m m = Fin 36"
    by (simp add: carries_stat_def)
  moreover from m'(2) have "County_Sub_County_m m' = Some ''WESTLANDS''
      \<and> Total_star_m m' = Text ''8,000''
      \<and> At_School_m m' = Num NaN \<and> Left_After_Completion_m m' = Text ''5,000''
      \<and> Left_Before_Completion_m m' = Num NaN \<and> Never_Been_m m' = Num NaN"
    by (simp add: carries_pop_def example_pop_def)
  ultimately show ?thesis using m(1,3) m'(1,3) direct by blast
qed

section \<open>Size of the merged frame and its tags\<close>

text \<open>
  C3. The merged frame has at least as many rows as the larger of the aggregate and the
  population frame, and at most as many as the two together; the rows tagged \<open>both\<close>,
  \<open>left_only\<close> and \<open>right_only\<close> are all its rows, each counted once.
\<close>

theorem merge_row_bounds:
  "max (length (groupby_agg sum_of mean_of (add_normalized school_df col))) (length pop_df)
     \<le> length (merge_schools_population sum_of mean_of school_df pop_df col)
   \<and> length (merge_schools_population sum_of mean_of school_df pop_df col)
     \<le> length (groupby_agg sum_of mean_of (add_normalized school_df col)) + length pop_df
   \<and> length (filter (\<lambda>m. merge_ind m = both) (merge_schools_population sum_of mean_of school_df pop_df col))
     + length (filter (\<lambda>m. merge_ind m = left_only) (merge_schools_population sum_of mean_of school_df pop_df col))
     + length (filter (\<lambda>m. merge_ind m = right_only) (merge_schools_population sum_of mean_of school_df pop_df col))
     = length (merge_schools_population sum_of mean_of school_df pop_df col)
   \<and> (\<forall>m \<in> set (merge_schools_population sum_of mean_of school_df pop_df col).
        (merge_ind m = both \<and> merge_ind m \<noteq> left_only \<and> merge_ind m \<noteq> right_only)
      \<or> (merge_ind m \<noteq> both \<and> merge_ind m = left_only \<and> merge_ind m \<noteq> right_only)
      \<or> (merge_ind m \<noteq> both \<and> merge_ind m \<noteq> left_only \<and> merge_ind m = right_only))"
proof -
  let ?stats = "groupby_agg sum_of mean_of (add_normalized school_df col)"
  have len: "length (outer_merge ?stats pop_df) =
               length pop_df + length (filter (\<lambda>s. \<not> (\<exists>p \<in> set pop_df. key_match s p)) ?stats)"
    by (rule length_outer_merge_distinct) (rule distinct_divisions_groupby)
  have "length (filter (\<lambda>s. \<not> (\<exists>p \<in> set pop_df. key_match s p)) ?stats) \<le> length ?stats"
    by (rule length_filter_le)
  with len have upper: "length (outer_merge ?stats pop_df) \<le> length ?stats + length pop_df"
    by simp
  from len have lower_r: "length pop_df \<le> length (outer_merge ?stats pop_df)" by simp
  have lower_l: "length ?stats \<le> length (outer_merge ?stats pop_df)"
    by (rule length_outer_merge_ge_left)
  have one_tag: "(t = both \<and> t \<noteq> left_only \<and> t \<noteq> right_only)
      \<or> (t \<noteq> both \<and> t = left_only \<and> t \<noteq> right_only)
      \<or> (t \<noteq> both \<and> t \<noteq> left_only \<and> t = right_only)" for t :: merge_tag
    by (cases t) simp_all
  show ?thesis
    unfolding merge_schools_population_def
    using upper lower_l lower_r by (simp add: tags_partition one_tag)
qed

theorem merge_row_bounds_witness:
  "length (merge_schools_population example_sum example_mean
             [example_school (Some ''KIBERA''), example_school (Some ''DAGORETTI'')]
             [example_pop (Some ''KIBRA'') (Text ''10,000'') (Text ''4,000''),
              example_pop (Some ''WESTLANDS'') (Text ''8,000'') (Text ''5,000'')] Division) = 3
   \<and> length (groupby_agg example_sum example_mean (add_normalized
               [example_school (Some ''KIBERA''), example_school (Some ''DAGORETTI'')] Division)) = 2"
proof -
  have stats: "length (groupby_agg example_sum example_mean (add_normalized
               [example_school (Some ''KIBERA''), example_school (Some ''DAGORETTI'')] Division)) = 2"
    by (simp add: groupby_agg_def add_normalized_def group_keys_def normalize_division_name_def
          name_mapping_def example_school_def)
  have lo: "length (filter (\<lambda>m. merge_ind m = left_only) (merge_schools_population example_sum example_mean
             [example_school (Some ''KIBERA''), example_school (Some ''DAGORETTI'')]
             [example_pop (Some ''KIBRA'') (Text ''10,000'') (Text ''4,000''),
              example_pop (Some ''WESTLANDS'') (Text ''8,000'') (Text ''5,000'')] Division)) = 1"
    and bo: "length (filter (\<lambda>m. merge_ind m = both) (merge_schools_population example_sum example_mean
             [example_school (Some ''KIBERA''), example_school (Some ''DAGORETTI'')]
             [example_pop (Some ''KIBRA'') (Text ''10,000'') (Text ''4,000''),
              example_pop (Some ''WESTLANDS'') (Text ''8,000'') (Text ''5,000'')] Division)) = 1"
    and ro: "length (filter (\<lambda>m. merge_ind m = right_only) (merge_schools_population example_sum example_mean
             [example_school (Some ''KIBERA''), example_school (Some ''DAGORETTI'')]
             [example_pop (Some ''KIBRA'') (Text ''10,000'') (Text ''4,000''),
              example_pop (Some ''WESTLANDS'') (Text ''8,000'') (Text ''5,000'')] Division)) = 1"
    by (simp_all add: merge_eval_defs example_school_def example_pop_def)
  from merge_row_bounds [where sum_of = example_sum and mean_of = example_mean
        and school_df = "[example_school (Some ''KIBERA''), example_school (Some ''DAGORETTI'')]"
        and col = Division
        and pop_df = "[example_pop (Some ''KIBRA'') (Text ''10,000'') (Text ''4,000''),
              example_pop (Some ''WESTLANDS'') (Text ''8,000'') (Text ''5,000'')]"]
  show ?thesis using stats lo bo ro by simp
qed

section \<open>The aggregate\<close>

text \<open>
  C4, as the code has it. The aggregate has one row per distinct normalized division that
  is not null; a school row whose division is null belongs to no group. In the row of a
  division, each total is the library's sum of that column over the rows of the division
  and each coordinate the library's mean, and, where every record carries its identifier,
  the school count is the number of the division's rows. Over a table whose records all
  carry their identifier, the school counts add up to the number of rows whose division is
  not null.
\<close>

theorem aggregation_spec:
  "distinct (map st_Division (groupby_agg sum_of mean_of (add_normalized school_df col)))
   \<and> set (map st_Division (groupby_agg sum_of mean_of (add_normalized school_df col)))
       = {normalize_division_name d | d. Some d \<in> col ` set school_df}
   \<and> (\<forall>s \<in> set (groupby_agg sum_of mean_of (add_normalized school_df col)).
        st_Total_Enrollment s = sum_of ''TotalEnrol'' (map TotalEnrol
            (filter (\<lambda>r. map_option normalize_division_name (col r) = Some (st_Division s)) school_df))
      \<and> st_Total_Boys s = sum_of ''TotalBoys'' (map TotalBoys
            (filter (\<lambda>r. map_option normalize_division_name (col r) = Some (st_Division s)) school_df))
      \<and> st_Total_Girls s = sum_of ''TotalGirls'' (map TotalGirls
            (filter (\<lambda>r. map_option normalize_division_name (col r) = Some (st_Division s)) school_df))
      \<and> st_Total_Classrooms s = sum_of ''No_Classrm'' (map No_Classrm
            (filter (\<lambda>r. map_option normalize_division_name (col r) = Some (st_Division s)) school_df))
      \<and> st_Total_Teachers s = sum_of ''TeachersTo'' (map TeachersTo
            (filter (\<lambda>r. map_option normalize_division_name (col r) = Some (st_Division s)) school_df))
      \<and> st_Latitude s = mean_of ''Latitude'' (map Latitude
            (filter (\<lambda>r. map_option normalize_division_name (col r) = Some (st_Division s)) school_df))
      \<and> st_Longitude s = mean_of ''Longitude'' (map Longitude
            (filter (\<lambda>r. map_option normalize_division_name (col r) = Some (st_Division s)) school_df))
      \<and> ((\<forall>r \<in> set school_df. FID r \<noteq> None) \<longrightarrow>
            st_School_Count s = length
              (filter (\<lambda>r. map_option normalize_division_name (col r) = Some (st_Division s)) school_df)))
   \<and> ((\<forall>r \<in> set school_df. FID r \<noteq> None) \<longrightarrow>
        sum_list (map st_School_Count (groupby_agg sum_of mean_of (add_normalized school_df col)))
          = length (filter (\<lambda>r. col r \<noteq> None) school_df))"
proof (intro conjI ballI impI)
  show "distinct (map st_Division (groupby_agg sum_of mean_of (add_normalized school_df col)))"
    by (rule distinct_divisions_groupby)
  show "set (map st_Division (groupby_agg sum_of mean_of (add_normalized school_df col)))
       = {normalize_division_name d | d. Some d \<in> col ` set school_df}"
    by (rule divisions_of_groupby)
next
  assume all: "\<forall>r \<in> set school_df. FID r \<noteq> None"
  have "filter (\<lambda>r. col r \<noteq> None \<and> FID r \<noteq> None) school_df = filter (\<lambda>r. col r \<noteq> None) school_df"
    by (rule filter_cong [OF refl]) (use all in blast)
  then show "sum_list (map st_School_Count (groupby_agg sum_of mean_of (add_normalized school_df col)))
          = length (filter (\<lambda>r. col r \<noteq> None) school_df)"
    by (simp add: sum_counts_add_normalized)
next
  fix s assume "s \<in> set (groupby_agg sum_of mean_of (add_normalized school_df col))"
  then have s: "s = agg_row sum_of mean_of (st_Division s)
      (filter (\<lambda>r. map_option normalize_division_name (col r) = Some (st_Division s)) school_df)"
    by (rule groupby_agg_row)
  let ?g = "filter (\<lambda>r. map_option normalize_division_name (col r) = Some (st_Division s)) school_df"
  show "st_Total_Enrollment s = sum_of ''TotalEnrol'' (map TotalEnrol ?g)"
    by (subst s) (simp add: agg_row_def)
  show "st_Total_Boys s = sum_of ''TotalBoys'' (map TotalBoys ?g)"
    by (subst s) (simp add: agg_row_def)
  show "st_Total_Girls s = sum_of ''TotalGirls'' (map TotalGirls ?g)"
    by (subst s) (simp add: agg_row_def)
  show "st_Total_Classrooms s = sum_of ''No_Classrm'' (map No_Classrm ?g)"
    by (subst s) (simp add: agg_row_def)
  show "st_Total_Teachers s = sum_of ''TeachersTo'' (map TeachersTo ?g)"
    by (subst s) (simp add: agg_row_def)
  show "st_Latitude s = mean_of ''Latitude'' (map Latitude ?g)"
    by (subst s) (simp add: agg_row_def)
  show "st_Longitude s = mean_of ''Longitude'' (map Longitude ?g)"
    by (subst s) (simp add: agg_row_def)
  assume all: "\<forall>r \<in> set school_df. FID r \<noteq> None"
  have "agg_count (map FID ?g) = length ?g"
    by (rule agg_count_all_present) (use all in auto)
  then show "st_School_Count s = length ?g"
    by (subst s) (simp add: agg_row_def)
qed

theorem aggregation_spec_witness:
  "(\<exists>s \<in> set (groupby_agg example_sum example_mean (add_normalized
           [example_school (Some ''KIBERA''),
            (example_school (Some ''KIBRA''))\<lparr>TotalEnrol := Fin 300, Latitude := Fin (- 3)\<rparr>,
            example_school None] Division)).
        st_Division s = ''KIBRA'' \<and> st_School_Count s = 2 \<and> st_Total_Enrollment s = Fin 700
        \<and> st_Total_Boys s = Fin 420 \<and> st_Latitude s = Fin (- 2))
   \<and> sum_list (map st_School_Count (groupby_agg example_sum example_mean (add_normalized
           [example_school (Some ''KIBERA''),
            (example_school (Some ''KIBRA''))\<lparr>TotalEnrol := Fin 300, Latitude := Fin (- 3)\<rparr>,
            example_school None] Division))) = 2"
proof -
  let ?df = "[example_school (Some ''KIBERA''),
              (example_school (Some ''KIBRA''))\<lparr>TotalEnrol := Fin 300, Latitude := Fin (- 3)\<rparr>,
              example_school None]"
  let ?stats = "groupby_agg example_sum example_mean (add_normalized ?df Division)"
  note inst = aggregation_spec [where sum_of = example_sum and mean_of = example_mean
      and school_df = ?df and col = Division]
  have all: "\<forall>r \<in> set ?df. FID r \<noteq> None"
    by (simp add: example_school_def)
  have "normalize_division_name ''KIBERA'' \<in> {normalize_division_name d | d. Some d \<in> Division ` set ?df}"
    by (rule CollectI, rule exI [of _ "''KIBERA''"]) (simp add: example_school_def)
  with inst have "normalize_division_name ''KIBERA'' \<in> set (map st_Division ?stats)"
    by blast
  then obtain s where s: "s \<in> set ?stats" "st_Division s = ''KIBRA''"
    by (auto simp: normalize_division_name_def name_mapping_def)
  have g: "filter (\<lambda>r. map_option normalize_division_name (Division r) = Some ''KIBRA'') ?df
             = [example_school (Some ''KIBERA''),
                (example_school (Some ''KIBRA''))\<lparr>TotalEnrol := Fin 300, Latitude := Fin (- 3)\<rparr>]"
    by (simp add: normalize_division_name_def name_mapping_def example_school_def)
  from inst s(1) all have
    "st_Total_Enrollment s = example_sum ''TotalEnrol'' (map TotalEnrol
        (filter (\<lambda>r. map_option normalize_division_name (Division r) = Some (st_Division s)) ?df))"
    "st_Total_Boys s = example_sum ''TotalBoys'' (map TotalBoys
        (filter (\<lambda>r. map_option normalize_division_name (Division r) = Some (st_Division s)) ?df))"
    "st_Latitude s = example_mean ''Latitude'' (map Latitude
        (filter (\<lambda>r. map_option normalize_division_name (Division r) = Some (st_Division s)) ?df))"
    "st_School_Count s = length
        (filter (\<lambda>r. map_option normalize_division_name (Division r) = Some (st_Division s)) ?df)"
    by blast+
  then have vals: "st_Total_Enrollment s = Fin 700" "st_Total_Boys s = Fin 420"
    "st_Latitude s = Fin (- 2)" "st_School_Count s = 2"
    unfolding s(2) g by (simp_all add: example_sum_def example_mean_def example_school_def)
  from inst all have "sum_list (map st_School_Count ?stats)
      = length (filter (\<lambda>r. Division r \<noteq> None) ?df)"
    by blast
  then have total: "sum_list (map st_School_Count ?stats) = 2"
    by (simp add: example_school_def)
  have direct: "?stats
      = [\<lparr> st_Division = ''KIBRA'', st_School_Count = 2, st_Total_Enrollment = Fin 700,
            st_Total_Boys = Fin 420, st_Total_Girls = Fin 380, st_Total_Classrooms = Fin 16,
            st_Total_Teachers = Fin 20, st_Latitude = Fin (- 2), st_Longitude = Fin 36 \<rparr>]"
    by (simp add: groupby_agg_def add_normalized_def group_keys_def group_of_def agg_row_def
          agg_count_def normalize_division_name_def name_mapping_def example_school_def
          example_sum_def example_mean_def)
  from s vals total show ?thesis by blast
qed

text \<open>
  A single school row whose division is null: the aggregate is empty, so the school
  counts add up to 0 and not to the number of rows.
\<close>

theorem aggregation_count_counterexample:
  "sum_list (map st_School_Count
      (groupby_agg example_sum example_mean (add_normalized [example_school None] Division)))
     \<noteq> length [example_school None]"
  by (simp add: groupby_agg_def add_normalized_def group_keys_def example_school_def)

section \<open>Canonical keys\<close>

text \<open>
  C8. The list of subcounty names has 18 pairwise distinct entries, the normalizer is
  injective on them, and the aggregate has pairwise distinct keys. The population frame
  narrowed to the names of the list and merged has, for each name of the list, as many
  rows of that name as the population frame has (and none of any other name). So where the
  population frame has at most one row per name, as the specification assumes, each key
  has at most one merged row from the population frame. The same holds for the narrowing
  by the list of \<^verbatim>\<open>visualize_completion_rates.py\<close>.
\<close>

theorem canonical_keys:
  "length get_nairobi_subcounties = 18
   \<and> distinct get_nairobi_subcounties
   \<and> inj_on normalize_division_name (set get_nairobi_subcounties)
   \<and> distinct (map st_Division (groupby_agg sum_of mean_of (add_normalized school_df col)))
   \<and> (\<forall>k. length (filter (\<lambda>m. County_Sub_County_m m = Some k)
                 (merge_schools_population sum_of mean_of school_df
                    (subset_by_subcounties pop_df get_nairobi_subcounties County_Sub_County) col))
          = (if k \<in> set get_nairobi_subcounties
             then length (filter (\<lambda>p. County_Sub_County p = Some k) pop_df) else 0))
   \<and> ((\<forall>k \<in> set get_nairobi_subcounties.
          length (filter (\<lambda>p. County_Sub_County p = Some k) pop_df) \<le> 1) \<longrightarrow>
       (\<forall>k. length (filter (\<lambda>m. County_Sub_County_m m = Some k)
                 (merge_schools_population sum_of mean_of school_df
                    (subset_by_subcounties pop_df get_nairobi_subcounties County_Sub_County) col))
             \<le> 1))
   \<and> (\<forall>k. length (filter (\<lambda>m. County_Sub_County_m m = Some k)
                 (merge_schools_population sum_of mean_of school_df
                    (subset_by_subcounties pop_df completion_rates_subcounties County_Sub_County) col))
          = (if k \<in> set completion_rates_subcounties
             then length (filter (\<lambda>p. County_Sub_County p = Some k) pop_df) else 0))
   \<and> ((\<forall>k \<in> set completion_rates_subcounties.
          length (filter (\<lambda>p. County_Sub_County p = Some k) pop_df) \<le> 1) \<longrightarrow>
       (\<forall>k. length (filter (\<lambda>m. County_Sub_County_m m = Some k)
                 (merge_schools_population sum_of mean_of school_df
                    (subset_by_subcounties pop_df completion_rates_subcounties County_Sub_County) col))
             \<le> 1))"
proof (intro conjI allI impI)
  show "length get_nairobi_subcounties = 18"
    by (simp add: get_nairobi_subcounties_def)
  show "distinct get_nairobi_subcounties"
    by (simp add: get_nairobi_subcounties_def)
  show "inj_on normalize_division_name (set get_nairobi_subcounties)"
    using subcounties_fixed by (metis inj_onI)
  show "distinct (map st_Division (groupby_agg sum_of mean_of (add_normalized school_df col)))"
    by (rule distinct_divisions_groupby)
next
  fix k
  show "length (filter (\<lambda>m. County_Sub_County_m m = Some k)
                 (merge_schools_population sum_of mean_of school_df
                    (subset_by_subcounties pop_df get_nairobi_subcounties County_Sub_County) col))
          = (if k \<in> set get_nairobi_subcounties
             then length (filter (\<lambda>p. County_Sub_County p = Some k) pop_df) else 0)"
    by (rule merged_rows_per_key)
  show "length (filter (\<lambda>m. County_Sub_County_m m = Some k)
                 (merge_schools_population sum_of mean_of school_df
                    (subset_by_subcounties pop_df completion_rates_subcounties County_Sub_County) col))
          = (if k \<in> set completion_rates_subcounties
             then length (filter (\<lambda>p. County_Sub_County p = Some k) pop_df) else 0)"
    by (rule merged_rows_per_key)
next
  fix k
  assume "\<forall>k \<in> set get_nairobi_subcounties.
          length (filter (\<lambda>p. County_Sub_County p = Some k) pop_df) \<le> 1"
  then show "length (filter (\<lambda>m. County_Sub_County_m m = Some k)
                 (merge_schools_population sum_of mean_of school_df
                    (subset_by_subcounties pop_df get_nairobi_subcounties County_Sub_County) col))
             \<le> 1"
    by (rule merged_rows_per_key_le)
next
  fix k
  assume "\<forall>k \<in> set completion_rates_subcounties.
          length (filter (\<lambda>p. County_Sub_County p = Some k) pop_df) \<le> 1"
  then show "length (filter (\<lambda>m. County_Sub_County_m m = Some k)
                 (merge_schools_population sum_of mean_of school_df
                    (subset_by_subcounties pop_df completion_rates_subcounties County_Sub_County) col))
             \<le> 1"
    by (rule merged_rows_per_key_le)
qed

theorem canonical_keys_witness:
  "length (filter (\<lambda>m. County_Sub_County_m m = Some ''KIBRA'')
        (merge_schools_population example_sum example_mean
           [example_school (Some ''KIBERA''), example_school (Some ''KIBRA'')]
           (subset_by_subcounties
              [example_pop (Some ''KIBRA'') (Text ''10,000'') (Text ''4,000''),
               example_pop (Some ''NAKURU'') (Text ''12,000'') (Text ''5,000''),
               example_pop (Some ''WESTLANDS'') (Text ''8,000'') (Text ''5,000'')]
              get_nairobi_subcounties County_Sub_County)
           Division)) = 1
   \<and> length (filter (\<lambda>m. County_Sub_County_m m = Some ''NAKURU'')
        (merge_schools_population example_sum example_mean
           [example_school (Some ''KIBERA''), example_school (Some ''KIBRA'')]
           (subset_by_subcounties
              [example_pop (Some ''KIBRA'') (Text ''10,000'') (Text ''4,000''),
               example_pop (Some ''NAKURU'') (Text ''12,000'') (Text ''5,000''),
               example_pop (Some ''WESTLANDS'') (Text ''8,000'') (Text ''5,000'')]
              get_nairobi_subcounties County_Sub_County)
           Division)) \<le> 1"
proof -
  let ?pdf = "[example_pop (Some ''KIBRA'') (Text ''10,000'') (Text ''4,000''),
               example_pop (Some ''NAKURU'') (Text ''12,000'') (Text ''5,000''),
               example_pop (Some ''WESTLANDS'') (Text ''8,000'') (Text ''5,000'')]"
  note inst = canonical_keys [where sum_of = example_sum and mean_of = example_mean
      and school_df = "[example_school (Some ''KIBERA''), example_school (Some ''KIBRA'')]"
      and pop_df = ?pdf and col = Division]
  have one: "\<forall>k \<in> set get_nairobi_subcounties.
      length (filter (\<lambda>p. County_Sub_County p = Some k) ?pdf) \<le> 1"
    by (simp add: get_nairobi_subcounties_def example_pop_def)
  have mem: "''KIBRA'' \<in> set get_nairobi_subcounties"
    by (simp add: get_nairobi_subcounties_def)
  have cnt: "length (filter (\<lambda>p. County_Sub_County p = Some ''KIBRA'') ?pdf) = 1"
    by (simp add: example_pop_def)
  from inst have "length (filter (\<lambda>m. County_Sub_County_m m = Some ''KIBRA'')
        (merge_schools_population example_sum example_mean
           [example_school (Some ''KIBERA''), example_school (Some ''KIBRA'')]
           (subset_by_subcounties ?pdf get_nairobi_subcounties County_Sub_County) Division))
      = (if ''KIBRA'' \<in> set get_nairobi_subcounties
         then length (filter (\<lambda>p. County_Sub_County p = Some ''KIBRA'') ?pdf) else 0)"
    by blast
  with mem cnt have a: "length (filter (\<lambda>m. County_Sub_County_m m = Some ''KIBRA'')
        (merge_schools_population example_sum example_mean
           [example_school (Some ''KIBERA''), example_school (Some ''KIBRA'')]
           (subset_by_subcounties ?pdf get_nairobi_subcounties County_Sub_County) Division)) = 1"
    by simp
  from inst one have b: "length (filter (\<lambda>m. County_Sub_County_m m = Some ''NAKURU'')
        (merge_schools_population example_sum example_mean
           [example_school (Some ''KIBERA''), example_school (Some ''KIBRA'')]
           (subset_by_subcounties ?pdf get_nairobi_subcounties County_Sub_County) Division)) \<le> 1"
    by blast
  have direct: "map County_Sub_County_m
      (merge_schools_population example_sum example_mean
         [example_school (Some ''KIBERA''), example_school (Some ''KIBRA'')]
         (subset_by_subcounties ?pdf get_nairobi_subcounties County_Sub_County) Division)
      = [Some ''KIBRA'', Some ''WESTLANDS'']"
    by (simp add: merge_eval_defs subset_by_subcounties_def isin_def get_nairobi_subcounties_def
          example_school_def example_pop_def)
  from a b show ?thesis by blast
qed

section \<open>The subsets\<close>

text \<open>
  C9. Each of the three subset operations returns the rows of its input that satisfy the
  predicate, each as often as the input has it and in the order of the input (the result
  is a subsequence of the input with the multiset of the satisfying rows). On frames in a
  store, the result is a new frame and every frame that existed before the call is what
  it was, the input frame included.
\<close>

theorem subsets_spec:
  "subseq (subset_by_province df province c) df
   \<and> mset (subset_by_province df province c) = filter_mset (\<lambda>r. c r = Some province) (mset df)
   \<and> subseq (subset_by_level df level c) df
   \<and> mset (subset_by_level df level c) = filter_mset (\<lambda>r. c r = Some level) (mset df)
   \<and> subseq (subset_by_subcounties df subcounties c) df
   \<and> mset (subset_by_subcounties df subcounties c)
       = filter_mset (\<lambda>r. \<exists>s \<in> set subcounties. c r = Some s) (mset df)
   \<and> (frame_at h a = Some (SchoolDF rows) \<longrightarrow>
        subset_by_province_st h a province
          = Some (h @ [SchoolDF (subset_by_province rows province Province)], length h)
        \<and> subset_by_level_st h a level
          = Some (h @ [SchoolDF (subset_by_level rows level Level)], length h))
   \<and> (frame_at h a = Some (PopDF prows) \<longrightarrow>
        subset_by_subcounties_st h a subcounties
          = Some (h @ [PopDF (subset_by_subcounties prows subcounties County_Sub_County)], length h))
   \<and> (\<forall>h' b. subset_by_province_st h a province = Some (h', b)
          \<or> subset_by_level_st h a level = Some (h', b)
          \<or> subset_by_subcounties_st h a subcounties = Some (h', b)
        \<longrightarrow> take (length h) h' = h \<and> b = length h)"
proof (intro conjI impI allI)
  show "subseq (subset_by_province df province c) df"
    by (simp add: subset_by_province_def)
  show "subseq (subset_by_level df level c) df"
    by (simp add: subset_by_level_def)
  show "subseq (subset_by_subcounties df subcounties c) df"
    by (simp add: subset_by_subcounties_def)
  show "mset (subset_by_province df province c) = filter_mset (\<lambda>r. c r = Some province) (mset df)"
    by (simp add: subset_by_province_def)
  show "mset (subset_by_level df level c) = filter_mset (\<lambda>r. c r = Some level) (mset df)"
    by (simp add: subset_by_level_def)
  show "mset (subset_by_subcounties df subcounties c)
       = filter_mset (\<lambda>r. \<exists>s \<in> set subcounties. c r = Some s) (mset df)"
    by (simp add: subset_by_subcounties_def isin_iff)
next
  assume "frame_at h a = Some (SchoolDF rows)"
  then show "subset_by_province_st h a province
          = Some (h @ [SchoolDF (subset_by_province rows province Province)], length h)"
    and "subset_by_level_st h a level
          = Some (h @ [SchoolDF (subset_by_level rows level Level)], length h)"
    by (simp_all add: subset_by_province_st_def subset_by_level_st_def new_frame_def)
next
  assume "frame_at h a = Some (PopDF prows)"
  then show "subset_by_subcounties_st h a subcounties
          = Some (h @ [PopDF (subset_by_subcounties prows subcounties County_Sub_County)], length h)"
    by (simp add: subset_by_subcounties_st_def new_frame_def)
next
  fix h' b
  assume "subset_by_province_st h a province = Some (h', b)
          \<or> subset_by_level_st h a level = Some (h', b)
          \<or> subset_by_subcounties_st h a subcounties = Some (h', b)"
  then have "take (length h) h' = h \<and> b = length h"
    using subset_st_unchanged by blast
  then show "take (length h) h' = h" and "b = length h" by simp_all
qed

theorem subsets_spec_witness:
  "frame_at [SchoolDF [example_school (Some ''KIBERA''), example_school None]] 0
     = Some (SchoolDF [example_school (Some ''KIBERA''), example_school None])
   \<and> subset_by_province_st [SchoolDF [example_school (Some ''KIBERA''), example_school None]] 0 ''NAIROBI''
     = Some ([SchoolDF [example_school (Some ''KIBERA''), example_school None],
              SchoolDF [example_school (Some ''KIBERA''), example_school None]], 1)
   \<and> subset_by_province [example_school (Some ''KIBERA''), example_school None] ''KIBERA'' Division
     = [example_school (Some ''KIBERA'')]"
proof -
  let ?rows = "[example_school (Some ''KIBERA''), example_school None]"
  have at: "frame_at [SchoolDF ?rows] 0 = Some (SchoolDF ?rows)"
    by (simp add: frame_at_def)
  have ev: "subset_by_province ?rows ''NAIROBI'' Province = ?rows"
    by (simp add: subset_by_province_def example_school_def)
  have ev2: "subset_by_province ?rows ''KIBERA'' Division = [example_school (Some ''KIBERA'')]"
    by (simp add: subset_by_province_def example_school_def)
  from subsets_spec [where h = "[SchoolDF ?rows]" and a = 0 and rows = ?rows
      and province = "''NAIROBI''"] at
  have "subset_by_province_st [SchoolDF ?rows] 0 ''NAIROBI''
          = Some ([SchoolDF ?rows] @ [SchoolDF (subset_by_province ?rows ''NAIROBI'' Province)],
                  length [SchoolDF ?rows])"
    by blast
  with at ev ev2 show ?thesis by simp
qed

section \<open>The merge leaves its inputs unchanged\<close>

text \<open>
  C10. Whenever \<^verbatim>\<open>merge_schools_population\<close> returns, every frame that existed before
  the call is what it was: the column \<open>Normalized_Division\<close> is assigned to a copy. Called
  on a school frame and a population frame it returns, both frames are unchanged and the
  returned reference holds the merged frame.
\<close>

theorem merge_leaves_inputs_unchanged:
  "(merge_schools_population_st sum_of mean_of h school_df pop_df = Some (h', merged_df) \<longrightarrow>
      take (length h) h' = h)
   \<and> (frame_at h school_df = Some (SchoolDF rows) \<and> frame_at h pop_df = Some (PopDF prows) \<longrightarrow>
      (\<exists>h' merged_df.
         merge_schools_population_st sum_of mean_of h school_df pop_df = Some (h', merged_df)
         \<and> frame_at h' school_df = Some (SchoolDF rows)
         \<and> frame_at h' pop_df = Some (PopDF prows)
         \<and> frame_at h' merged_df = Some (MergedDF (merge_schools_population sum_of mean_of rows prows Division))))"
proof (intro conjI impI)
  assume "merge_schools_population_st sum_of mean_of h school_df pop_df = Some (h', merged_df)"
  then show "take (length h) h' = h" by (rule merge_st_unchanged)
next
  assume a: "frame_at h school_df = Some (SchoolDF rows) \<and> frame_at h pop_df = Some (PopDF prows)"
  let ?h' = "h @ [SchoolNormDF (add_normalized rows Division),
                        StatsDF (groupby_agg sum_of mean_of (add_normalized rows Division)),
                        MergedDF (merge_schools_population sum_of mean_of rows prows Division)]"
  have "merge_schools_population_st sum_of mean_of h school_df pop_df = Some (?h', length h + 2)"
    using a by (simp add: merge_st_result)
  moreover have "frame_at ?h' school_df = Some (SchoolDF rows)"
    using a frame_at_Some_less [of h school_df] by (simp add: frame_at_append)
  moreover have "frame_at ?h' pop_df = Some (PopDF prows)"
    using a frame_at_Some_less [of h pop_df] by (simp add: frame_at_append)
  moreover have "frame_at ?h' (length h + 2) = Some (MergedDF (merge_schools_population sum_of mean_of rows prows Division))"
    by (simp add: frame_at_def nth_append)
  ultimately show "\<exists>h' merged_df.
         merge_schools_population_st sum_of mean_of h school_df pop_df = Some (h', merged_df)
         \<and> frame_at h' school_df = Some (SchoolDF rows)
         \<and> frame_at h' pop_df = Some (PopDF prows)
         \<and> frame_at h' merged_df = Some (MergedDF (merge_schools_population sum_of mean_of rows prows Division))"
    by blast
qed

theorem merge_leaves_inputs_unchanged_witness:
  "frame_at [SchoolDF [example_school (Some ''KIBERA'')],
             PopDF [example_pop (Some ''KIBRA'') (Text ''10,000'') (Text ''4,000'')]] 0
     = Some (SchoolDF [example_school (Some ''KIBERA'')])
   \<and> frame_at [SchoolDF [example_school (Some ''KIBERA'')],
             PopDF [example_pop (Some ''KIBRA'') (Text ''10,000'') (Text ''4,000'')]] 1
     = Some (PopDF [example_pop (Some ''KIBRA'') (Text ''10,000'') (Text ''4,000'')])
   \<and> (\<exists>h' merged_df.
         merge_schools_population_st example_sum example_mean [SchoolDF [example_school (Some ''KIBERA'')],
             PopDF [example_pop (Some ''KIBRA'') (Text ''10,000'') (Text ''4,000'')]] 0 1
           = Some (h', merged_df)
         \<and> frame_at h' 0 = Some (SchoolDF [example_school (Some ''KIBERA'')])
         \<and> frame_at h' 1 = Some (PopDF [example_pop (Some ''KIBRA'') (Text ''10,000'') (Text ''4,000'')])
         \<and> frame_at h' merged_df = Some (MergedDF (merge_schools_population example_sum example_mean
               [example_school (Some ''KIBERA'')]
               [example_pop (Some ''KIBRA'') (Text ''10,000'') (Text ''4,000'')] Division)))"
proof -
  let ?h = "[SchoolDF [example_school (Some ''KIBERA'')],
             PopDF [example_pop (Some ''KIBRA'') (Text ''10,000'') (Text ''4,000'')]]"
  have s: "frame_at ?h 0 = Some (SchoolDF [example_school (Some ''KIBERA'')])"
    by (simp add: frame_at_def)
  have p: "frame_at ?h 1 = Some (PopDF [example_pop (Some ''KIBRA'') (Text ''10,000'') (Text ''4,000'')])"
    by (simp add: frame_at_def)
  from merge_leaves_inputs_unchanged [where sum_of = example_sum and mean_of = example_mean
      and h = ?h and school_df = 0 and pop_df = 1
      and rows = "[example_school (Some ''KIBERA'')]"
      and prows = "[example_pop (Some ''KIBRA'') (Text ''10,000'') (Text ''4,000'')]"] s p
  show ?thesis by blast
qed

section \<open>The derived metrics\<close>

text \<open>
  C5. When \<^verbatim>\<open>calculate_completion_metrics\<close> returns, its rows are the matched rows of
  the merged frame, in order. In each, every one of the five population columns holds the
  number its cell stands for (a text cell stripped of its commas and converted to a
  float), the school columns are as they were, and the completion rate is completed /
  total population \<times> 100. On that frame \<^verbatim>\<open>create_schools_per_capita_charts\<close> returns
  and computes, row by row, schools-per-10k = school count / total population \<times> 10000 and
  students-per-school = total enrollment / school count; on finite numbers and a
  denominator other than zero these are the quotients of real arithmetic. The metrics are
  returned whenever the five population cells of every matched row are text that converts.
\<close>

theorem metric_derivation:
  "(calculate_completion_metrics tf merged_df = Inr df \<longrightarrow>
      length df = length (filter (\<lambda>m. merge_ind m = both) merged_df)
      \<and> (\<forall>i < length df. \<exists>t a la lb n.
            numeric_value tf (dtype_object (map Total_star_m merged_df))
              (Total_star_m (filter (\<lambda>m. merge_ind m = both) merged_df ! i)) t
          \<and> numeric_value tf (dtype_object (map At_School_m merged_df))
              (At_School_m (filter (\<lambda>m. merge_ind m = both) merged_df ! i)) a
          \<and> numeric_value tf (dtype_object (map Left_After_Completion_m merged_df))
              (Left_After_Completion_m (filter (\<lambda>m. merge_ind m = both) merged_df ! i)) la
          \<and> numeric_value tf (dtype_object (map Left_Before_Completion_m merged_df))
              (Left_Before_Completion_m (filter (\<lambda>m. merge_ind m = both) merged_df ! i)) lb
          \<and> numeric_value tf (dtype_object (map Never_Been_m merged_df))
              (Never_Been_m (filter (\<lambda>m. merge_ind m = both) merged_df ! i)) n
          \<and> Total_star_m (df ! i) = Num t \<and> At_School_m (df ! i) = Num a
          \<and> Left_After_Completion_m (df ! i) = Num la
          \<and> Left_Before_Completion_m (df ! i) = Num lb \<and> Never_Been_m (df ! i) = Num n
          \<and> Division_m (df ! i) = Division_m (filter (\<lambda>m. merge_ind m = both) merged_df ! i)
          \<and> School_Count (df ! i) = School_Count (filter (\<lambda>m. merge_ind m = both) merged_df ! i)
          \<and> Total_Enrollment (df ! i)
              = Total_Enrollment (filter (\<lambda>m. merge_ind m = both) merged_df ! i)
          \<and> Completed_Rate (df ! i) = fmul (fdiv la t) (Fin 100)
          \<and> (\<forall>x y. la = Fin x \<and> t = Fin y \<and> y \<noteq> 0 \<longrightarrow>
                Completed_Rate (df ! i) = Fin (x / y * 100)))
      \<and> (\<exists>pc. create_schools_per_capita_charts tf df = Inr pc \<and> length pc = length df
          \<and> (\<forall>i < length df. \<forall>t la.
                Total_star_m (df ! i) = Num t \<and> Left_After_Completion_m (df ! i) = Num la \<longrightarrow>
                Total_Pop (pc ! i) = t
              \<and> Schools_per_10k (pc ! i)
                  = fmul (fdiv (case School_Count (df ! i) of None \<Rightarrow> NaN | Some c \<Rightarrow> Fin (real c)) t)
                      (Fin 10000)
              \<and> Students_per_School (pc ! i)
                  = fdiv (Total_Enrollment (df ! i))
                      (case School_Count (df ! i) of None \<Rightarrow> NaN | Some c \<Rightarrow> Fin (real c))
              \<and> Completed_Rate (pc ! i) = fmul (fdiv la t) (Fin 100)
              \<and> (\<forall>c y. School_Count (df ! i) = Some c \<and> t = Fin y \<and> y \<noteq> 0 \<longrightarrow>
                    Schools_per_10k (pc ! i) = Fin (real c / y * 10000))
              \<and> (\<forall>e c. Total_Enrollment (df ! i) = Fin e \<and> School_Count (df ! i) = Some c
                      \<and> c \<noteq> 0 \<longrightarrow>
                    Students_per_School (pc ! i) = Fin (e / real c)))))
   \<and> ((\<forall>m \<in> set merged_df. merge_ind m = both \<longrightarrow>
             text_parses tf (Total_star_m m) \<and> text_parses tf (At_School_m m)
           \<and> text_parses tf (Left_After_Completion_m m)
           \<and> text_parses tf (Left_Before_Completion_m m) \<and> text_parses tf (Never_Been_m m))
        \<longrightarrow> (\<exists>df. calculate_completion_metrics tf merged_df = Inr df))"
proof (intro conjI impI)
  assume a: "calculate_completion_metrics tf merged_df = Inr df"
  let ?fdf = "filter (\<lambda>m. merge_ind m = both) merged_df"
  show "length df = length ?fdf"
    by (rule metrics_rows(1) [OF a])
  show "\<forall>i < length df. \<exists>t a la lb n.
            numeric_value tf (dtype_object (map Total_star_m merged_df)) (Total_star_m (?fdf ! i)) t
          \<and> numeric_value tf (dtype_object (map At_School_m merged_df)) (At_School_m (?fdf ! i)) a
          \<and> numeric_value tf (dtype_object (map Left_After_Completion_m merged_df))
              (Left_After_Completion_m (?fdf ! i)) la
          \<and> numeric_value tf (dtype_object (map Left_Before_Completion_m merged_df))
              (Left_Before_Completion_m (?fdf ! i)) lb
          \<and> numeric_value tf (dtype_object (map Never_Been_m merged_df)) (Never_Been_m (?fdf ! i)) n
          \<and> Total_star_m (df ! i) = Num t \<and> At_School_m (df ! i) = Num a
          \<and> Left_After_Completion_m (df ! i) = Num la
          \<and> Left_Before_Completion_m (df ! i) = Num lb \<and> Never_Been_m (df ! i) = Num n
          \<and> Division_m (df ! i) = Division_m (?fdf ! i)
          \<and> School_Count (df ! i) = School_Count (?fdf ! i)
          \<and> Total_Enrollment (df ! i) = Total_Enrollment (?fdf ! i)
          \<and> Completed_Rate (df ! i) = fmul (fdiv la t) (Fin 100)
          \<and> (\<forall>x y. la = Fin x \<and> t = Fin y \<and> y \<noteq> 0 \<longrightarrow>
                Completed_Rate (df ! i) = Fin (x / y * 100))"
  proof (intro allI impI)
    fix i assume i: "i < length df"
    from metrics_rows(2) [OF a i] obtain t la where
      1: "numeric_value tf (dtype_object (map Total_star_m merged_df)) (Total_star_m (?fdf ! i)) t"
        "numeric_value tf (dtype_object (map Left_After_Completion_m merged_df))
           (Left_After_Completion_m (?fdf ! i)) la"
        "Total_star_m (df ! i) = Num t" "Left_After_Completion_m (df ! i) = Num la"
        "School_Count (df ! i) = School_Count (?fdf ! i)"
        "Total_Enrollment (df ! i) = Total_Enrollment (?fdf ! i)"
        "Completed_Rate (df ! i) = fmul (fdiv la t) (Fin 100)"
      by blast
    from metrics_rows_other [OF a i] obtain a' lb n where
      2: "numeric_value tf (dtype_object (map At_School_m merged_df)) (At_School_m (?fdf ! i)) a'"
        "numeric_value tf (dtype_object (map Left_Before_Completion_m merged_df))
           (Left_Before_Completion_m (?fdf ! i)) lb"
        "numeric_value tf (dtype_object (map Never_Been_m merged_df)) (Never_Been_m (?fdf ! i)) n"
        "At_School_m (df ! i) = Num a'" "Left_Before_Completion_m (df ! i) = Num lb"
        "Never_Been_m (df ! i) = Num n" "Division_m (df ! i) = Division_m (?fdf ! i)"
      by blast
    have 3: "\<forall>x y. la = Fin x \<and> t = Fin y \<and> y \<noteq> 0 \<longrightarrow>
                Completed_Rate (df ! i) = Fin (x / y * 100)"
      using 1(7) by auto
    show "\<exists>t a la lb n.
            numeric_value tf (dtype_object (map Total_star_m merged_df)) (Total_star_m (?fdf ! i)) t
          \<and> numeric_value tf (dtype_object (map At_School_m merged_df)) (At_School_m (?fdf ! i)) a
          \<and> numeric_value tf (dtype_object (map Left_After_Completion_m merged_df))
              (Left_After_Completion_m (?fdf ! i)) la
          \<and> numeric_value tf (dtype_object (map Left_Before_Completion_m merged_df))
              (Left_Before_Completion_m (?fdf ! i)) lb
          \<and> numeric_value tf (dtype_object (map Never_Been_m merged_df)) (Never_Been_m (?fdf ! i)) n
          \<and> Total_star_m (df ! i) = Num t \<and> At_School_m (df ! i) = Num a
          \<and> Left_After_Completion_m (df ! i) = Num la
          \<and> Left_Before_Completion_m (df ! i) = Num lb \<and> Never_Been_m (df ! i) = Num n
          \<and> Division_m (df ! i) = Division_m (?fdf ! i)
          \<and> School_Count (df ! i) = School_Count (?fdf ! i)
          \<and> Total_Enrollment (df ! i) = Total_Enrollment (?fdf ! i)
          \<and> Completed_Rate (df ! i) = fmul (fdiv la t) (Fin 100)
          \<and> (\<forall>x y. la = Fin x \<and> t = Fin y \<and> y \<noteq> 0 \<longrightarrow>
                Completed_Rate (df ! i) = Fin (x / y * 100))"
      by (rule exI [of _ t], rule exI [of _ a'], rule exI [of _ la], rule exI [of _ lb],
          rule exI [of _ n])
         (use 1 2 3 in simp)
  qed
  from per_capita_rows [OF a] obtain pc where
    pc: "create_schools_per_capita_charts tf df = Inr pc" "length pc = length df"
    and raw: "\<forall>i < length df.
                Total_Pop (pc ! i) = the_num (Total_star_m (df ! i))
              \<and> Schools_per_10k (pc ! i)
                  = fmul (fdiv (count_float (School_Count (df ! i))) (the_num (Total_star_m (df ! i))))
                      (Fin 10000)
              \<and> Students_per_School (pc ! i)
                  = fdiv (Total_Enrollment (df ! i)) (count_float (School_Count (df ! i)))
              \<and> Completed_Rate (pc ! i)
                  = fmul (fdiv (the_num (Left_After_Completion_m (df ! i)))
                      (the_num (Total_star_m (df ! i)))) (Fin 100)"
    by blast
  have rows: "\<forall>i < length df. \<forall>t la.
                Total_star_m (df ! i) = Num t \<and> Left_After_Completion_m (df ! i) = Num la \<longrightarrow>
                Total_Pop (pc ! i) = t
              \<and> Schools_per_10k (pc ! i)
                  = fmul (fdiv (case School_Count (df ! i) of None \<Rightarrow> NaN | Some c \<Rightarrow> Fin (real c)) t)
                      (Fin 10000)
              \<and> Students_per_School (pc ! i)
                  = fdiv (Total_Enrollment (df ! i))
                      (case School_Count (df ! i) of None \<Rightarrow> NaN | Some c \<Rightarrow> Fin (real c))
              \<and> Completed_Rate (pc ! i) = fmul (fdiv la t) (Fin 100)"
  proof (intro allI impI, elim conjE)
    fix i t la
    assume "i < length df" "Total_star_m (df ! i) = Num t" "Left_After_Completion_m (df ! i) = Num la"
    with raw show "Total_Pop (pc ! i) = t
              \<and> Schools_per_10k (pc ! i)
                  = fmul (fdiv (case School_Count (df ! i) of None \<Rightarrow> NaN | Some c \<Rightarrow> Fin (real c)) t)
                      (Fin 10000)
              \<and> Students_per_School (pc ! i)
                  = fdiv (Total_Enrollment (df ! i))
                      (case School_Count (df ! i) of None \<Rightarrow> NaN | Some c \<Rightarrow> Fin (real c))
              \<and> Completed_Rate (pc ! i) = fmul (fdiv la t) (Fin 100)"
      by (simp add: count_float_def)
  qed
  have "\<forall>i < length df. \<forall>t la.
                Total_star_m (df ! i) = Num t \<and> Left_After_Completion_m (df ! i) = Num la \<longrightarrow>
                Total_Pop (pc ! i) = t
              \<and> Schools_per_10k (pc ! i)
                  = fmul (fdiv (case School_Count (df ! i) of None \<Rightarrow> NaN | Some c \<Rightarrow> Fin (real c)) t)
                      (Fin 10000)
              \<and> Students_per_School (pc ! i)
                  = fdiv (Total_Enrollment (df ! i))
                      (case School_Count (df ! i) of None \<Rightarrow> NaN | Some c \<Rightarrow> Fin (real c))
              \<and> Completed_Rate (pc ! i) = fmul (fdiv la t) (Fin 100)
              \<and> (\<forall>c y. School_Count (df ! i) = Some c \<and> t = Fin y \<and> y \<noteq> 0 \<longrightarrow>
                    Schools_per_10k (pc ! i) = Fin (real c / y * 10000))
              \<and> (\<forall>e c. Total_Enrollment (df ! i) = Fin e \<and> School_Count (df ! i) = Some c
                      \<and> c \<noteq> 0 \<longrightarrow>
                    Students_per_School (pc ! i) = Fin (e / real c))"
  proof (intro allI impI, elim conjE)
    fix i t la
    assume i: "i < length df" and t: "Total_star_m (df ! i) = Num t"
      and la: "Left_After_Completion_m (df ! i) = Num la"
    from rows i t la have r:
      "Total_Pop (pc ! i) = t"
      "Schools_per_10k (pc ! i)
         = fmul (fdiv (case School_Count (df ! i) of None \<Rightarrow> NaN | Some c \<Rightarrow> Fin (real c)) t)
             (Fin 10000)"
      "Students_per_School (pc ! i)
         = fdiv (Total_Enrollment (df ! i))
             (case School_Count (df ! i) of None \<Rightarrow> NaN | Some c \<Rightarrow> Fin (real c))"
      "Completed_Rate (pc ! i) = fmul (fdiv la t) (Fin 100)"
      by blast+
    have f1: "\<forall>c y. School_Count (df ! i) = Some c \<and> t = Fin y \<and> y \<noteq> 0 \<longrightarrow>
                    Schools_per_10k (pc ! i) = Fin (real c / y * 10000)"
      using r(2) by auto
    have f2: "\<forall>e c. Total_Enrollment (df ! i) = Fin e \<and> School_Count (df ! i) = Some c
                      \<and> c \<noteq> 0 \<longrightarrow>
                    Students_per_School (pc ! i) = Fin (e / real c)"
      using r(3) by auto
    from r f1 f2 show "Total_Pop (pc ! i) = t
              \<and> Schools_per_10k (pc ! i)
                  = fmul (fdiv (case School_Count (df ! i) of None \<Rightarrow> NaN | Some c \<Rightarrow> Fin (real c)) t)
                      (Fin 10000)
              \<and> Students_per_School (pc ! i)
                  = fdiv (Total_Enrollment (df ! i))
                      (case School_Count (df ! i) of None \<Rightarrow> NaN | Some c \<Rightarrow> Fin (real c))
              \<and> Completed_Rate (pc ! i) = fmul (fdiv la t) (Fin 100)
              \<and> (\<forall>c y. School_Count (df ! i) = Some c \<and> t = Fin y \<and> y \<noteq> 0 \<longrightarrow>
                    Schools_per_10k (pc ! i) = Fin (real c / y * 10000))
              \<and> (\<forall>e c. Total_Enrollment (df ! i) = Fin e \<and> School_Count (df ! i) = Some c
                      \<and> c \<noteq> 0 \<longrightarrow>
                    Students_per_School (pc ! i) = Fin (e / real c))"
      by blast
  qed
  with pc show "\<exists>pc. create_schools_per_capita_charts tf df = Inr pc \<and> length pc = length df
          \<and> (\<forall>i < length df. \<forall>t la.
                Total_star_m (df ! i) = Num t \<and> Left_After_Completion_m (df ! i) = Num la \<longrightarrow>
                Total_Pop (pc ! i) = t
              \<and> Schools_per_10k (pc ! i)
                  = fmul (fdiv (case School_Count (df ! i) of None \<Rightarrow> NaN | Some c \<Rightarrow> Fin (real c)) t)
                      (Fin 10000)
              \<and> Students_per_School (pc ! i)
                  = fdiv (Total_Enrollment (df ! i))
                      (case School_Count (df ! i) of None \<Rightarrow> NaN | Some c \<Rightarrow> Fin (real c))
              \<and> Completed_Rate (pc ! i) = fmul (fdiv la t) (Fin 100)
              \<and> (\<forall>c y. School_Count (df ! i) = Some c \<and> t = Fin y \<and> y \<noteq> 0 \<longrightarrow>
                    Schools_per_10k (pc ! i) = Fin (real c / y * 10000))
              \<and> (\<forall>e c. Total_Enrollment (df ! i) = Fin e \<and> School_Count (df ! i) = Some c
                      \<and> c \<noteq> 0 \<longrightarrow>
                    Students_per_School (pc ! i) = Fin (e / real c)))"
    by blast
next
  assume "\<forall>m \<in> set merged_df. merge_ind m = both \<longrightarrow>
             text_parses tf (Total_star_m m) \<and> text_parses tf (At_School_m m)
           \<and> text_parses tf (Left_After_Completion_m m)
           \<and> text_parses tf (Left_Before_Completion_m m) \<and> text_parses tf (Never_Been_m m)"
  then show "\<exists>df. calculate_completion_metrics tf merged_df = Inr df"
    by (intro metrics_total) blast
qed

theorem metric_derivation_witness:
  "(\<exists>df pc.
        calculate_completion_metrics example_to_float
          (merge_schools_population example_sum example_mean [example_school (Some ''KIBERA'')]
             [example_pop_text ''KIBRA'' ''10,000'' ''4,000''] Division) = Inr df
      \<and> create_schools_per_capita_charts example_to_float df = Inr pc
      \<and> length df = 1
      \<and> Total_star_m (df ! 0) = Num (Fin 10000) \<and> At_School_m (df ! 0) = Num (Fin 3000)
      \<and> Left_After_Completion_m (df ! 0) = Num (Fin 4000)
      \<and> Left_Before_Completion_m (df ! 0) = Num (Fin 2000)
      \<and> Never_Been_m (df ! 0) = Num (Fin 1000)
      \<and> Completed_Rate (df ! 0) = Fin 40
      \<and> Total_Pop (pc ! 0) = Fin 10000 \<and> Schools_per_10k (pc ! 0) = Fin 1
      \<and> Students_per_School (pc ! 0) = Fin 400)"
proof -
  let ?M = "merge_schools_population example_sum example_mean [example_school (Some ''KIBERA'')]
             [example_pop_text ''KIBRA'' ''10,000'' ''4,000''] Division"
  let ?m = "merged_of (Some (agg_row example_sum example_mean ''KIBRA'' [example_school (Some ''KIBERA'')]))
       (Some (example_pop_text ''KIBRA'' ''10,000'' ''4,000'')) both"
  have M: "?M = [?m]"
    by (simp add: merge_schools_population_def outer_merge_def groupby_agg_def add_normalized_def
          group_keys_def group_of_def key_match_def normalize_division_name_def name_mapping_def
          example_school_def example_pop_text_def agg_row_def)
  have cells: "Total_star_m ?m = Text ''10,000''" "Left_After_Completion_m ?m = Text ''4,000''"
    "At_School_m ?m = Text ''3,000''" "Left_Before_Completion_m ?m = Text ''2,000''"
    "Never_Been_m ?m = Text ''1,000''" "merge_ind ?m = both"
    "School_Count ?m = Some 1" "Total_Enrollment ?m = Fin 400"
    by (simp_all add: merged_of_def example_pop_text_def agg_row_def agg_count_def
          example_school_def example_sum_def)
  have hyp: "\<forall>m \<in> set ?M. merge_ind m = both \<longrightarrow>
        text_parses example_to_float (Total_star_m m) \<and> text_parses example_to_float (At_School_m m)
      \<and> text_parses example_to_float (Left_After_Completion_m m)
      \<and> text_parses example_to_float (Left_Before_Completion_m m)
      \<and> text_parses example_to_float (Never_Been_m m)"
    unfolding M by (simp add: cells text_parses_def example_to_float_def)
  from metric_derivation [where tf = example_to_float and merged_df = ?M, THEN conjunct2, THEN mp,
      OF hyp]
  obtain df where df: "calculate_completion_metrics example_to_float ?M = Inr df" ..
  note main = metric_derivation [where tf = example_to_float and merged_df = ?M and df = df,
      THEN conjunct1, THEN mp, OF df]
  note len = main [THEN conjunct1]
  note rows = main [THEN conjunct2, THEN conjunct1]
  note pcs = main [THEN conjunct2, THEN conjunct2]
  from len have len1: "length df = 1" and i: "0 < length df"
    by (simp_all add: M cells)
  have f0: "filter (\<lambda>m. merge_ind m = both) ?M ! 0 = ?m"
    by (simp add: M cells)
  have obj: "dtype_object (map Total_star_m ?M)" "dtype_object (map At_School_m ?M)"
    "dtype_object (map Left_After_Completion_m ?M)"
    "dtype_object (map Left_Before_Completion_m ?M)" "dtype_object (map Never_Been_m ?M)"
    by (simp_all add: M cells dtype_object_def)
  from rows [rule_format, OF i] obtain t a la lb n where
    nv: "numeric_value example_to_float (dtype_object (map Total_star_m ?M))
           (Total_star_m (filter (\<lambda>m. merge_ind m = both) ?M ! 0)) t"
      "numeric_value example_to_float (dtype_object (map At_School_m ?M))
           (At_School_m (filter (\<lambda>m. merge_ind m = both) ?M ! 0)) a"
      "numeric_value example_to_float (dtype_object (map Left_After_Completion_m ?M))
           (Left_After_Completion_m (filter (\<lambda>m. merge_ind m = both) ?M ! 0)) la"
      "numeric_value example_to_float (dtype_object (map Left_Before_Completion_m ?M))
           (Left_Before_Completion_m (filter (\<lambda>m. merge_ind m = both) ?M ! 0)) lb"
      "numeric_value example_to_float (dtype_object (map Never_Been_m ?M))
           (Never_Been_m (filter (\<lambda>m. merge_ind m = both) ?M ! 0)) n"
    and cols: "Total_star_m (df ! 0) = Num t" "At_School_m (df ! 0) = Num a"
      "Left_After_Completion_m (df ! 0) = Num la" "Left_Before_Completion_m (df ! 0) = Num lb"
      "Never_Been_m (df ! 0) = Num n"
    and kept: "School_Count (df ! 0) = School_Count (filter (\<lambda>m. merge_ind m = both) ?M ! 0)"
      "Total_Enrollment (df ! 0) = Total_Enrollment (filter (\<lambda>m. merge_ind m = both) ?M ! 0)"
    and rate: "\<forall>x y. la = Fin x \<and> t = Fin y \<and> y \<noteq> 0 \<longrightarrow>
                Completed_Rate (df ! 0) = Fin (x / y * 100)"
    by (elim exE conjE) (rule that, assumption+)
  from nv have vals: "t = Fin 10000" "a = Fin 3000" "la = Fin 4000" "lb = Fin 2000" "n = Fin 1000"
    unfolding f0 by (simp_all add: obj cells numeric_value_def example_to_float_def)
  from kept have kept': "School_Count (df ! 0) = Some 1" "Total_Enrollment (df ! 0) = Fin 400"
    unfolding f0 by (simp_all add: cells)
  from rate [rule_format, of 4000 10000] vals have cr: "Completed_Rate (df ! 0) = Fin 40" by simp
  from pcs obtain pc where
    pc: "create_schools_per_capita_charts example_to_float df = Inr pc"
    and prow: "\<forall>i < length df. \<forall>t la.
                Total_star_m (df ! i) = Num t \<and> Left_After_Completion_m (df ! i) = Num la \<longrightarrow>
                Total_Pop (pc ! i) = t
              \<and> Schools_per_10k (pc ! i)
                  = fmul (fdiv (case School_Count (df ! i) of None \<Rightarrow> NaN | Some c \<Rightarrow> Fin (real c)) t)
                      (Fin 10000)
              \<and> Students_per_School (pc ! i)
                  = fdiv (Total_Enrollment (df ! i))
                      (case School_Count (df ! i) of None \<Rightarrow> NaN | Some c \<Rightarrow> Fin (real c))
              \<and> Completed_Rate (pc ! i) = fmul (fdiv la t) (Fin 100)
              \<and> (\<forall>c y. School_Count (df ! i) = Some c \<and> t = Fin y \<and> y \<noteq> 0 \<longrightarrow>
                    Schools_per_10k (pc ! i) = Fin (real c / y * 10000))
              \<and> (\<forall>e c. Total_Enrollment (df ! i) = Fin e \<and> School_Count (df ! i) = Some c
                      \<and> c \<noteq> 0 \<longrightarrow>
                    Students_per_School (pc ! i) = Fin (e / real c))"
    by (elim exE conjE) (rule that, assumption+)
  note r0 = prow [rule_format, OF i, of t la, OF conjI [OF cols(1) cols(3)]]
  from r0 [THEN conjunct1] vals have q1: "Total_Pop (pc ! 0) = Fin 10000" by simp
  from r0 [THEN conjunct2, THEN conjunct2, THEN conjunct2, THEN conjunct2, THEN conjunct1,
      rule_format, of 1 10000] kept' vals
  have q2: "Schools_per_10k (pc ! 0) = Fin 1" by simp
  from r0 [THEN conjunct2, THEN conjunct2, THEN conjunct2, THEN conjunct2, THEN conjunct2,
      rule_format, of 400 1] kept'
  have q3: "Students_per_School (pc ! 0) = Fin 400" by simp
  let ?r = "with_rate ?m (Num (Fin 10000)) (Num (Fin 3000)) (Num (Fin 4000)) (Num (Fin 2000))
              (Num (Fin 1000))"
  have direct: "calculate_completion_metrics example_to_float [?m] = Inr [?r]"
    by (simp add: metrics_eval_defs cells)
  have direct_rate: "Completed_Rate ?r = Fin 40"
    by (simp add: with_rate_def merged_row.defs metrics_row.defs)
  have direct_pc: "create_schools_per_capita_charts example_to_float [?r]
      = Inr [with_per_capita ?r (Num (Fin 10000)) (Num (Fin 4000))]"
    by (simp add: create_schools_per_capita_charts_def clean_numeric_def dtype_object_def
          with_rate_sel)
  have direct_vals:
    "Schools_per_10k (with_per_capita ?r (Num (Fin 10000)) (Num (Fin 4000))) = Fin 1"
    "Students_per_School (with_per_capita ?r (Num (Fin 10000)) (Num (Fin 4000))) = Fin 400"
    "Total_Pop (with_per_capita ?r (Num (Fin 10000)) (Num (Fin 4000))) = Fin 10000"
    by (simp_all add: with_per_capita_def with_rate_def count_float_def cells
          merged_row.defs metrics_row.defs per_capita_row.defs)
  from direct df have dfr: "df = [?r]" by (simp add: M)
  with direct_pc pc have pcr: "pc = [with_per_capita ?r (Num (Fin 10000)) (Num (Fin 4000))]"
    by simp
  show ?thesis
    by (rule exI [of _ df], rule exI [of _ pc])
       (simp add: df pc len1 cols vals cr q1 q2 q3)
qed

section \<open>Zero denominators\<close>

text \<open>
  C6. No branch of the metric derivation tests a denominator. Whatever the totals and
  the counts, both functions return when the five population cells of every matched row
  are text that converts. For a matched row whose total population is zero, the
  completion rate is what the division by zero gives: an infinity with the sign of the
  number completed, or NaN when that number is zero too; schools-per-10k is plus infinity,
  or NaN when the school count is zero. For a row whose school count is zero,
  students-per-school is an infinity with the sign of the enrollment, or NaN when the
  enrollment is zero.
\<close>

theorem zero_denominators_unguarded:
  "((\<forall>m \<in> set merged_df. merge_ind m = both \<longrightarrow>
             text_parses tf (Total_star_m m) \<and> text_parses tf (At_School_m m)
           \<and> text_parses tf (Left_After_Completion_m m)
           \<and> text_parses tf (Left_Before_Completion_m m) \<and> text_parses tf (Never_Been_m m))
      \<longrightarrow> (\<exists>df pc. calculate_completion_metrics tf merged_df = Inr df
             \<and> create_schools_per_capita_charts tf df = Inr pc
             \<and> length df = length (filter (\<lambda>m. merge_ind m = both) merged_df)
             \<and> length pc = length df))
   \<and> (calculate_completion_metrics tf merged_df = Inr df
        \<and> create_schools_per_capita_charts tf df = Inr pc \<and> i < length df \<longrightarrow>
        (\<forall>b. Total_star_m (df ! i) = Num (Fin 0) \<and> Left_After_Completion_m (df ! i) = Num (Fin b) \<longrightarrow>
             Completed_Rate (df ! i) = (if b = 0 then NaN else if 0 < b then PInf else NInf)
           \<and> Completed_Rate (pc ! i) = (if b = 0 then NaN else if 0 < b then PInf else NInf))
      \<and> (\<forall>c. Total_star_m (df ! i) = Num (Fin 0) \<and> School_Count (df ! i) = Some c \<longrightarrow>
             Schools_per_10k (pc ! i) = (if c = 0 then NaN else PInf))
      \<and> (\<forall>e. School_Count (df ! i) = Some 0 \<and> Total_Enrollment (df ! i) = Fin e \<longrightarrow>
             Students_per_School (pc ! i) = (if e = 0 then NaN else if 0 < e then PInf else NInf)))"
proof (intro conjI impI)
  assume "\<forall>m \<in> set merged_df. merge_ind m = both \<longrightarrow>
             text_parses tf (Total_star_m m) \<and> text_parses tf (At_School_m m)
           \<and> text_parses tf (Left_After_Completion_m m)
           \<and> text_parses tf (Left_Before_Completion_m m) \<and> text_parses tf (Never_Been_m m)"
  then have "\<exists>df. calculate_completion_metrics tf merged_df = Inr df"
    by (intro metrics_total) blast
  then obtain df where df: "calculate_completion_metrics tf merged_df = Inr df" ..
  from per_capita_rows [OF df] obtain pc where
    "create_schools_per_capita_charts tf df = Inr pc" "length pc = length df"
    by blast
  with df metrics_rows(1) [OF df]
  show "\<exists>df pc. calculate_completion_metrics tf merged_df = Inr df
             \<and> create_schools_per_capita_charts tf df = Inr pc
             \<and> length df = length (filter (\<lambda>m. merge_ind m = both) merged_df)
             \<and> length pc = length df"
    by blast
next
  assume a: "calculate_completion_metrics tf merged_df = Inr df
        \<and> create_schools_per_capita_charts tf df = Inr pc \<and> i < length df"
  then have df: "calculate_completion_metrics tf merged_df = Inr df"
    and pc: "create_schools_per_capita_charts tf df = Inr pc" and i: "i < length df"
    by simp_all
  from metrics_rows(2) [OF df i] obtain t la where
    row: "Total_star_m (df ! i) = Num t" "Left_After_Completion_m (df ! i) = Num la"
      "Completed_Rate (df ! i) = fmul (fdiv la t) (Fin 100)"
    by blast
  from per_capita_rows [OF df] pc have raw:
    "Schools_per_10k (pc ! i)
       = fmul (fdiv (count_float (School_Count (df ! i))) (the_num (Total_star_m (df ! i))))
           (Fin 10000)"
    "Students_per_School (pc ! i)
       = fdiv (Total_Enrollment (df ! i)) (count_float (School_Count (df ! i)))"
    "Completed_Rate (pc ! i)
       = fmul (fdiv (the_num (Left_After_Completion_m (df ! i)))
           (the_num (Total_star_m (df ! i)))) (Fin 100)"
    using i by auto
  have s10k: "Schools_per_10k (pc ! i)
                  = fmul (fdiv (case School_Count (df ! i) of None \<Rightarrow> NaN | Some c \<Rightarrow> Fin (real c)) t)
                      (Fin 10000)"
    using raw(1) row(1) by (simp add: count_float_def)
  have sps: "Students_per_School (pc ! i)
                  = fdiv (Total_Enrollment (df ! i))
                      (case School_Count (df ! i) of None \<Rightarrow> NaN | Some c \<Rightarrow> Fin (real c))"
    using raw(2) by (simp add: count_float_def)
  have cr: "Completed_Rate (pc ! i) = fmul (fdiv la t) (Fin 100)"
    using raw(3) row by simp
  show "\<forall>b. Total_star_m (df ! i) = Num (Fin 0) \<and> Left_After_Completion_m (df ! i) = Num (Fin b) \<longrightarrow>
             Completed_Rate (df ! i) = (if b = 0 then NaN else if 0 < b then PInf else NInf)
           \<and> Completed_Rate (pc ! i) = (if b = 0 then NaN else if 0 < b then PInf else NInf)"
  proof (intro allI impI, elim conjE)
    fix b
    assume "Total_star_m (df ! i) = Num (Fin 0)" "Left_After_Completion_m (df ! i) = Num (Fin b)"
    with row have "t = Fin 0" "la = Fin b" by simp_all
    with row(3) cr
    show "Completed_Rate (df ! i) = (if b = 0 then NaN else if 0 < b then PInf else NInf)
           \<and> Completed_Rate (pc ! i) = (if b = 0 then NaN else if 0 < b then PInf else NInf)"
      by simp
  qed
  show "\<forall>c. Total_star_m (df ! i) = Num (Fin 0) \<and> School_Count (df ! i) = Some c \<longrightarrow>
             Schools_per_10k (pc ! i) = (if c = 0 then NaN else PInf)"
  proof (intro allI impI, elim conjE)
    fix c
    assume "Total_star_m (df ! i) = Num (Fin 0)" and c: "School_Count (df ! i) = Some c"
    with row have "t = Fin 0" by simp
    with s10k c
    show "Schools_per_10k (pc ! i) = (if c = 0 then NaN else PInf)"
      by simp
  qed
  show "\<forall>e. School_Count (df ! i) = Some 0 \<and> Total_Enrollment (df ! i) = Fin e \<longrightarrow>
             Students_per_School (pc ! i) = (if e = 0 then NaN else if 0 < e then PInf else NInf)"
  proof (intro allI impI, elim conjE)
    fix e
    assume "School_Count (df ! i) = Some 0" "Total_Enrollment (df ! i) = Fin e"
    with sps
    show "Students_per_School (pc ! i) = (if e = 0 then NaN else if 0 < e then PInf else NInf)"
      by simp
  qed
qed

theorem zero_denominators_unguarded_witness:
  "(\<exists>df pc.
        calculate_completion_metrics example_to_float
          (merge_schools_population example_sum example_mean
             [(example_school (Some ''KIBERA''))\<lparr>FID := None\<rparr>]
             [example_pop_text ''KIBRA'' ''0'' ''4,000''] Division) = Inr df
      \<and> create_schools_per_capita_charts example_to_float df = Inr pc
      \<and> length df = 1
      \<and> Total_star_m (df ! 0) = Num (Fin 0) \<and> Left_After_Completion_m (df ! 0) = Num (Fin 4000)
      \<and> School_Count (df ! 0) = Some 0 \<and> Total_Enrollment (df ! 0) = Fin 400
      \<and> Completed_Rate (df ! 0) = PInf \<and> Completed_Rate (pc ! 0) = PInf
      \<and> Schools_per_10k (pc ! 0) = NaN \<and> Students_per_School (pc ! 0) = PInf)"
proof -
  let ?M = "merge_schools_population example_sum example_mean
             [(example_school (Some ''KIBERA''))\<lparr>FID := None\<rparr>]
             [example_pop_text ''KIBRA'' ''0'' ''4,000''] Division"
  let ?m = "merged_of (Some (agg_row example_sum example_mean ''KIBRA''
              [(example_school (Some ''KIBERA''))\<lparr>FID := None\<rparr>]))
       (Some (example_pop_text ''KIBRA'' ''0'' ''4,000'')) both"
  have M: "?M = [?m]"
    by (simp add: merge_schools_population_def outer_merge_def groupby_agg_def add_normalized_def
          group_keys_def group_of_def key_match_def normalize_division_name_def name_mapping_def
          example_school_def example_pop_text_def agg_row_def)
  have cells: "Total_star_m ?m = Text ''0''" "Left_After_Completion_m ?m = Text ''4,000''"
    "At_School_m ?m = Text ''3,000''" "Left_Before_Completion_m ?m = Text ''2,000''"
    "Never_Been_m ?m = Text ''1,000''" "merge_ind ?m = both"
    "School_Count ?m = Some 0" "Total_Enrollment ?m = Fin 400"
    by (simp_all add: merged_of_def example_pop_text_def agg_row_def agg_count_def
          example_school_def example_sum_def)
  have hyp: "\<forall>m \<in> set ?M. merge_ind m = both \<longrightarrow>
        text_parses example_to_float (Total_star_m m) \<and> text_parses example_to_float (At_School_m m)
      \<and> text_parses example_to_float (Left_After_Completion_m m)
      \<and> text_parses example_to_float (Left_Before_Completion_m m)
      \<and> text_parses example_to_float (Never_Been_m m)"
    unfolding M by (simp add: cells text_parses_def example_to_float_def)
  from zero_denominators_unguarded [where tf = example_to_float and merged_df = ?M,
      THEN conjunct1, THEN mp, OF hyp]
  obtain df pc where df: "calculate_completion_metrics example_to_float ?M = Inr df"
    and pc: "create_schools_per_capita_charts example_to_float df = Inr pc"
    and len: "length df = length (filter (\<lambda>m. merge_ind m = both) ?M)"
    by (elim exE conjE) (rule that, assumption+)
  from len have len1: "length df = 1" and i: "0 < length df"
    by (simp_all add: M cells)
  have f0: "filter (\<lambda>m. merge_ind m = both) ?M ! 0 = ?m"
    by (simp add: M cells)
  have obj: "dtype_object (map Total_star_m ?M)" "dtype_object (map Left_After_Completion_m ?M)"
    by (simp_all add: M cells dtype_object_def)
  from metrics_rows(2) [OF df i] obtain t la where
    nv: "numeric_value example_to_float (dtype_object (map Total_star_m ?M))
           (Total_star_m (filter (\<lambda>m. merge_ind m = both) ?M ! 0)) t"
      "numeric_value example_to_float (dtype_object (map Left_After_Completion_m ?M))
           (Left_After_Completion_m (filter (\<lambda>m. merge_ind m = both) ?M ! 0)) la"
    and cols: "Total_star_m (df ! 0) = Num t" "Left_After_Completion_m (df ! 0) = Num la"
    and kept: "School_Count (df ! 0) = School_Count (filter (\<lambda>m. merge_ind m = both) ?M ! 0)"
      "Total_Enrollment (df ! 0) = Total_Enrollment (filter (\<lambda>m. merge_ind m = both) ?M ! 0)"
    by (elim exE conjE) (rule that, assumption+)
  from nv have vals: "t = Fin 0" "la = Fin 4000"
    unfolding f0 by (simp_all add: obj cells numeric_value_def example_to_float_def)
  from cols vals have cols': "Total_star_m (df ! 0) = Num (Fin 0)"
    "Left_After_Completion_m (df ! 0) = Num (Fin 4000)"
    by simp_all
  from kept have kept': "School_Count (df ! 0) = Some 0" "Total_Enrollment (df ! 0) = Fin 400"
    unfolding f0 by (simp_all add: cells)
  note z = zero_denominators_unguarded [where tf = example_to_float and merged_df = ?M
      and df = df and pc = pc and i = 0, THEN conjunct2, THEN mp,
      OF conjI [OF df conjI [OF pc i]]]
  from z [THEN conjunct1, rule_format, of 4000, OF conjI [OF cols'(1) cols'(2)]]
  have cr: "Completed_Rate (df ! 0) = PInf" "Completed_Rate (pc ! 0) = PInf"
    by simp_all
  from z [THEN conjunct2, THEN conjunct1, rule_format, of 0, OF conjI [OF cols'(1) kept'(1)]]
  have s10k: "Schools_per_10k (pc ! 0) = NaN" by simp
  from z [THEN conjunct2, THEN conjunct2, rule_format, of 400, OF conjI [OF kept'(1) kept'(2)]]
  have sps: "Students_per_School (pc ! 0) = PInf" by simp
  let ?r = "with_rate ?m (Num (Fin 0)) (Num (Fin 3000)) (Num (Fin 4000)) (Num (Fin 2000))
              (Num (Fin 1000))"
  have direct: "calculate_completion_metrics example_to_float [?m] = Inr [?r]"
    by (simp add: metrics_eval_defs cells)
  have direct_rate: "Completed_Rate ?r = PInf"
    by (simp add: with_rate_def merged_row.defs metrics_row.defs)
  have direct_pc: "create_schools_per_capita_charts example_to_float [?r]
      = Inr [with_per_capita ?r (Num (Fin 0)) (Num (Fin 4000))]"
    by (simp add: create_schools_per_capita_charts_def clean_numeric_def dtype_object_def
          with_rate_sel)
  have direct_vals:
    "Schools_per_10k (with_per_capita ?r (Num (Fin 0)) (Num (Fin 4000))) = NaN"
    "Students_per_School (with_per_capita ?r (Num (Fin 0)) (Num (Fin 4000))) = PInf"
    "Completed_Rate (with_per_capita ?r (Num (Fin 0)) (Num (Fin 4000))) = PInf"
    by (simp_all add: with_per_capita_def with_rate_def count_float_def cells
          merged_row.defs metrics_row.defs per_capita_row.defs)
  from direct df have dfr: "df = [?r]" by (simp add: M)
  with direct_pc pc have pcr: "pc = [with_per_capita ?r (Num (Fin 0)) (Num (Fin 4000))]"
    by simp
  show ?thesis
    by (rule exI [of _ df], rule exI [of _ pc])
       (simp add: df pc len1 cols' kept' cr s10k sps)
qed

section \<open>The normalizer\<close>

text \<open>
  C7. The alias table has exactly one entry, \<open>KIBERA \<mapsto> KIBRA\<close>; every other string is
  mapped to itself; the function is defined on every string (it is a HOL function with
  no failing branch), and applying it twice is applying it once.
\<close>

theorem normalize_division_name_spec:
  "length name_mapping = 1
   \<and> normalize_division_name ''KIBERA'' = ''KIBRA''
   \<and> (\<forall>s. s \<noteq> ''KIBERA'' \<longrightarrow> normalize_division_name s = s)
   \<and> (\<forall>s. normalize_division_name (normalize_division_name s) = normalize_division_name s)"
  by (simp add: name_mapping_def normalize_division_name_def)

theorem normalize_division_name_spec_witness:
  "''WESTLANDS'' \<noteq> ''KIBERA'' \<and> normalize_division_name ''WESTLANDS'' = ''WESTLANDS''
   \<and> normalize_division_name (normalize_division_name ''KIBERA'') = ''KIBRA''"
  using normalize_division_name_spec by simp

end
